theory Spec2Isabelle
  imports Main
begin

section \<open>JavaScript values\<close>

text \<open>
  The gate validator (\<^verbatim>\<open>src/server.js\<close>) is an Express service. The file holds two
  deployed variants of the same service, one after the other; definitions that differ
  carry the suffix \<open>_v1\<close> (lines 1-270) or \<open>_v2\<close> (lines 271-503), definitions
  without suffix model code that is the same in both.

  Request bodies, SOAP records, log entries and response bodies are JavaScript values.
  An object is an association list from property names to values (a lookup takes the
  first binding of a name; the order of the names carries no meaning in the model).
  Numbers are the integers. A string is a list of characters; what the platform's
  \<^verbatim>\<open>toUpperCase\<close> and \<^verbatim>\<open>toLowerCase\<close> make of a string (Unicode case mapping) is
  not computed here but taken from the environment below.
\<close>

datatype jval =
    JUndefined
  | JNull
  | JBool bool
  | JNum int
  | JStr string
  | JArr "jval list"
  | JObj "(string \<times> jval) list"

text \<open>Truthiness, as \<^verbatim>\<open>!x\<close>, \<^verbatim>\<open>x && y\<close> and \<^verbatim>\<open>x || y\<close> read it.\<close>

fun truthy :: "jval \<Rightarrow> bool" where
  "truthy JUndefined = False"
| "truthy JNull = False"
| "truthy (JBool b) = b"
| "truthy (JNum n) = (n \<noteq> 0)"
| "truthy (JStr s) = (s \<noteq> [])"
| "truthy (JArr xs) = True"
| "truthy (JObj kvs) = True"

text \<open>
  Strict equality \<^verbatim>\<open>a === b\<close> between a value of the request and a value of the
  authority record (or a literal). Primitives are equal when they are the same value;
  an object or an array is equal only to itself, and the request and the authority
  record never share one.
\<close>

definition strict_eq :: "jval \<Rightarrow> jval \<Rightarrow> bool" where
  "strict_eq a b = (case a of JArr xs \<Rightarrow> False | JObj kvs \<Rightarrow> False | _ \<Rightarrow> a = b)"

text \<open>\<^verbatim>\<open>x || ""\<close>\<close>

definition or_empty :: "jval \<Rightarrow> jval" where
  "or_empty x = (if truthy x then x else JStr [])"

definition nullish :: "jval \<Rightarrow> bool" where
  "nullish v = (v = JUndefined \<or> v = JNull)"

subsection \<open>Property names and own properties\<close>

definition digit :: "nat \<Rightarrow> char" where
  "digit d = ''0123456789'' ! d"

function show_nat :: "nat \<Rightarrow> string" where
  "show_nat n = (if n < 10 then [digit n] else show_nat (n div 10) @ [digit (n mod 10)])"
  by pat_completeness auto

termination
  by (relation "measure id") auto

text \<open>
  The own enumerable properties of a value, in order: what \<^verbatim>\<open>Object.keys\<close> lists
  and what an object spread \<^verbatim>\<open>{...v}\<close> copies. An array and a string have their
  indices; \<^verbatim>\<open>undefined\<close>, \<^verbatim>\<open>null\<close>, numbers and booleans have none.
\<close>

fun own_entries :: "jval \<Rightarrow> (string \<times> jval) list" where
  "own_entries (JObj kvs) = kvs"
| "own_entries (JArr xs) = zip (map show_nat [0..<length xs]) xs"
| "own_entries (JStr s) = zip (map show_nat [0..<length s]) (map (\<lambda>c. JStr [c]) s)"
| "own_entries v = []"

text \<open>
  Reading a property, \<^verbatim>\<open>v.k\<close> or \<^verbatim>\<open>v[k]\<close>. \<open>read_prop\<close> is the read on a value
  that is neither \<^verbatim>\<open>undefined\<close> nor \<^verbatim>\<open>null\<close>: the own property, or
  \<^verbatim>\<open>undefined\<close>. (None of the names the service reads is an inherited property.)
  \<open>get_prop\<close> is the read on any value: on \<^verbatim>\<open>undefined\<close> and \<^verbatim>\<open>null\<close> it
  throws a TypeError.
\<close>

datatype error = TypeError string | Failure string

fun message :: "error \<Rightarrow> string" where
  "message (TypeError m) = m"
| "message (Failure m) = m"

definition read_prop :: "jval \<Rightarrow> string \<Rightarrow> jval" where
  "read_prop v k = (case map_of (own_entries v) k of None \<Rightarrow> JUndefined | Some x \<Rightarrow> x)"

definition get_prop :: "jval \<Rightarrow> string \<Rightarrow> error + jval" where
  "get_prop v k =
     (if nullish v then Inl (TypeError ''Cannot read properties of undefined or null'')
      else Inr (read_prop v k))"

text \<open>\<^verbatim>\<open>Object.keys(v)\<close> throws on \<^verbatim>\<open>undefined\<close> and \<^verbatim>\<open>null\<close>.\<close>

definition object_keys :: "jval \<Rightarrow> error + string list" where
  "object_keys v =
     (if nullish v then Inl (TypeError ''Cannot convert undefined or null to object'')
      else Inr (map fst (own_entries v)))"

text \<open>
  Writing a property: an existing name keeps its place and takes the new value, a new
  name goes last. \<open>assign\<close> writes a list of properties in order, as the spread
  \<^verbatim>\<open>{...props, ...others}\<close> does.
\<close>

fun put :: "string \<Rightarrow> jval \<Rightarrow> (string \<times> jval) list \<Rightarrow> (string \<times> jval) list" where
  "put k v [] = [(k, v)]"
| "put k v ((k', v') # kvs) = (if k = k' then (k, v) # kvs else (k', v') # put k v kvs)"

fun assign :: "(string \<times> jval) list \<Rightarrow> (string \<times> jval) list \<Rightarrow> (string \<times> jval) list" where
  "assign props [] = props"
| "assign props ((k, v) # others) = assign (put k v props) others"

subsection \<open>Strings\<close>

text \<open>
  \<^verbatim>\<open>v.substring(0, 3)\<close> on a value that is not \<^verbatim>\<open>undefined\<close> or \<^verbatim>\<open>null\<close>: only
  a string has the method, on any other value the call throws a TypeError.
\<close>

definition substring_0_3 :: "jval \<Rightarrow> error + string" where
  "substring_0_3 v =
     (case v of JStr s \<Rightarrow> Inr (take 3 s)
      | _ \<Rightarrow> Inl (TypeError ''substring is not a function''))"

text \<open>\<^verbatim>\<open>s.includes(t)\<close>: \<open>t\<close> occurs in \<open>s\<close>.\<close>

fun includes_str :: "string \<Rightarrow> string \<Rightarrow> bool" where
  "includes_str [] t = (t = [])"
| "includes_str (c # cs) t = (take (length t) (c # cs) = t \<or> includes_str cs t)"

subsection \<open>JSON\<close>

text \<open>
  \<open>jsonify v\<close> is \<^verbatim>\<open>JSON.parse(JSON.stringify(v))\<close>, what a value is once it has been
  written to a file and read back: a property whose value is \<^verbatim>\<open>undefined\<close> is left
  out, an array element that is \<^verbatim>\<open>undefined\<close> becomes \<^verbatim>\<open>null\<close>.
\<close>

fun jsonify :: "jval \<Rightarrow> jval" where
  "jsonify (JArr xs) = JArr (map (\<lambda>x. if x = JUndefined then JNull else jsonify x) xs)"
| "jsonify (JObj kvs) =
     JObj (map (\<lambda>kv. (fst kv, jsonify (snd kv))) (filter (\<lambda>kv. snd kv \<noteq> JUndefined) kvs))"
| "jsonify v = v"

definition json_elem :: "jval \<Rightarrow> jval" where
  "json_elem x = (if x = JUndefined then JNull else jsonify x)"

section \<open>The world of the service\<close>

text \<open>
  A file of the log directory holds text. The service only ever parses that text as
  JSON, so a file is modelled by what \<^verbatim>\<open>JSON.parse\<close> makes of it: \<open>Json v\<close> when
  the text is the JSON of \<open>v\<close>, \<open>Garbage\<close> when the text is empty or does not parse.
  File system faults (a read or write that fails) are outside the model.
\<close>

datatype fcontent = Garbage | Json jval

text \<open>
  What the service does to the outside, in the order it does it: a log file written,
  the lookup sent to the permit authority (with the permit number), an event broadcast
  to the sockets (\<^verbatim>\<open>io.emit\<close>), a payload posted to the target API.
\<close>

datatype effect = Wrote string | SoapCall jval | Emit string jval | Post jval

record world =
  files :: "string \<Rightarrow> fcontent option"
  ticks :: nat
  trace :: "effect list"

text \<open>
  What the outside does to the service. \<open>clock env k\<close> is the time, in milliseconds,
  that the \<open>k\<close>-th \<^verbatim>\<open>new Date()\<close> of the process reads (\<open>ticks\<close> counts the reads
  made so far); \<open>toISOString\<close> prints a time; \<open>date_value env v\<close> is the time value of
  \<^verbatim>\<open>new Date(v)\<close>, \<open>None\<close> for an invalid date; \<open>soap_reply env p\<close> is the body of
  the authority's reply to a lookup of \<open>p\<close>, or the error \<^verbatim>\<open>axios.post\<close> throws;
  \<open>xml2js env xml\<close> is the tree \<^verbatim>\<open>parseStringPromise\<close> makes of a reply, or the
  error it throws; \<open>target_reply env payload\<close> is \<open>None\<close> when the target API
  accepts the payload and the message of the error \<^verbatim>\<open>axios.post\<close> throws otherwise;
  \<open>upperCase env s\<close> and \<open>lowerCase env s\<close> are what the platform's
  \<^verbatim>\<open>toUpperCase\<close> and \<^verbatim>\<open>toLowerCase\<close> make of the string \<open>s\<close>.
\<close>

record env =
  clock :: "nat \<Rightarrow> int"
  toISOString :: "int \<Rightarrow> string"
  date_value :: "jval \<Rightarrow> int option"
  soap_reply :: "jval \<Rightarrow> error + string"
  xml2js :: "string \<Rightarrow> error + jval"
  target_reply :: "jval \<Rightarrow> string option"
  upperCase :: "string \<Rightarrow> string"
  lowerCase :: "string \<Rightarrow> string"

text \<open>
  \<^verbatim>\<open>v.toUpperCase()\<close> on a value that is not \<^verbatim>\<open>undefined\<close> or \<^verbatim>\<open>null\<close>: only a
  string has the method, on any other value the call throws a TypeError.
\<close>

definition toUpperCase :: "env \<Rightarrow> jval \<Rightarrow> error + string" where
  "toUpperCase env v =
     (case v of JStr s \<Rightarrow> Inr (upperCase env s)
      | _ \<Rightarrow> Inl (TypeError ''toUpperCase is not a function''))"

text \<open>
  A computation changes the world and returns a value or throws; what it did before it
  threw stays done.
\<close>

type_synonym 'a io = "world \<Rightarrow> (error + 'a) \<times> world"

definition return :: "'a \<Rightarrow> 'a io" where
  "return x w = (Inr x, w)"

definition throw :: "error \<Rightarrow> 'a io" where
  "throw e w = (Inl e, w)"

definition lift :: "error + 'a \<Rightarrow> 'a io" where
  "lift r w = (r, w)"

definition bind :: "'a io \<Rightarrow> ('a \<Rightarrow> 'b io) \<Rightarrow> 'b io" where
  "bind m f w = (case m w of (Inl e, w') \<Rightarrow> (Inl e, w') | (Inr x, w') \<Rightarrow> f x w')"

text \<open>The same sequencing for computations that touch nothing.\<close>

definition bindE :: "error + 'a \<Rightarrow> ('a \<Rightarrow> error + 'b) \<Rightarrow> error + 'b" where
  "bindE r f = (case r of Inl e \<Rightarrow> Inl e | Inr x \<Rightarrow> f x)"

text \<open>\<^verbatim>\<open>new Date()\<close>\<close>

definition new_Date :: "env \<Rightarrow> int io" where
  "new_Date env w = (Inr (clock env (ticks w)), w\<lparr>ticks := Suc (ticks w)\<rparr>)"

text \<open>\<^verbatim>\<open>io.emit(name, payload)\<close>\<close>

definition emit :: "string \<Rightarrow> jval \<Rightarrow> unit io" where
  "emit name payload w = (Inr (), w\<lparr>trace := trace w @ [Emit name payload]\<rparr>)"

section \<open>Log helpers\<close>

text \<open>
  \<^verbatim>\<open>writeLog(file, data)\<close>, lines 36-55 and 302-316. \<open>load_arr\<close> is the value of
  \<^verbatim>\<open>arr\<close> after the \<^verbatim>\<open>try\<close> block: the empty array when the file is missing, empty
  or unparsable, and whatever the file's JSON is otherwise. \<open>log_entry\<close> is the object
  pushed: the time of the write under \<^verbatim>\<open>timestamp\<close>, then the properties of
  \<^verbatim>\<open>data\<close> spread over it. \<^verbatim>\<open>arr.push\<close> is a function only when \<^verbatim>\<open>arr\<close> is an
  array; on \<^verbatim>\<open>null\<close> reading \<^verbatim>\<open>push\<close> throws at once, on any other value the
  argument is evaluated and the call throws.
\<close>

definition load_arr :: "world \<Rightarrow> string \<Rightarrow> jval" where
  "load_arr w file =
     (case files w file of
        None \<Rightarrow> JArr []
      | Some Garbage \<Rightarrow> JArr []
      | Some (Json v) \<Rightarrow> v)"

definition log_entry :: "env \<Rightarrow> int \<Rightarrow> jval \<Rightarrow> jval" where
  "log_entry env t data =
     JObj (assign [(''timestamp'', JStr (toISOString env t))] (own_entries data))"

definition writeFile :: "string \<Rightarrow> jval \<Rightarrow> unit io" where
  "writeFile file v w =
     (Inr (), w\<lparr>files := (files w)(file \<mapsto> Json (jsonify v)),
               trace := trace w @ [Wrote file]\<rparr>)"

definition writeLog :: "env \<Rightarrow> string \<Rightarrow> jval \<Rightarrow> unit io" where
  "writeLog env file data w =
     (case load_arr w file of
        JArr xs \<Rightarrow>
          bind (new_Date env) (\<lambda>t. writeFile file (JArr (xs @ [log_entry env t data]))) w
      | JNull \<Rightarrow> throw (TypeError ''Cannot read properties of null'') w
      | JUndefined \<Rightarrow> throw (TypeError ''Cannot read properties of undefined'') w
      | _ \<Rightarrow> bind (new_Date env) (\<lambda>t. throw (TypeError ''arr.push is not a function'')) w)"

text \<open>\<^verbatim>\<open>readLog(file)\<close>, lines 57-66 and 318-326.\<close>

definition readLog :: "world \<Rightarrow> string \<Rightarrow> jval" where
  "readLog w file =
     (case files w file of
        None \<Rightarrow> JArr []
      | Some Garbage \<Rightarrow> JArr []
      | Some (Json v) \<Rightarrow> v)"

text \<open>
  A log file can be appended to when what \<^verbatim>\<open>readLog\<close> returns for it is an array:
  the file is missing, empty or unparsable, or holds an array. \<open>history\<close> is that
  array. Every file that \<^verbatim>\<open>writeLog\<close> has written holds an array.
\<close>

definition appendable :: "world \<Rightarrow> string \<Rightarrow> bool" where
  "appendable w file = (case readLog w file of JArr xs \<Rightarrow> True | _ \<Rightarrow> False)"

definition history :: "world \<Rightarrow> string \<Rightarrow> jval list" where
  "history w file = (case readLog w file of JArr xs \<Rightarrow> xs | _ \<Rightarrow> [])"

definition log_files :: "string list" where
  "log_files =
     [''incoming.log.json'', ''matched.log.json'', ''mismatch.log.json'',
      ''invalid.log.json'', ''error.log.json'', ''sent-to-api.log.json'',
      ''sent-to-api-error.log.json'']"

definition logs_ok :: "world \<Rightarrow> bool" where
  "logs_ok w = list_all (appendable w) log_files"

section \<open>Forwarding to the target API\<close>

text \<open>\<^verbatim>\<open>axios.post(DUMMY_TARGET_API, payload, { timeout: 5000 })\<close>\<close>

definition post_target :: "env \<Rightarrow> jval \<Rightarrow> (string option) io" where
  "post_target env payload w = (Inr (target_reply env payload), w\<lparr>trace := trace w @ [Post payload]\<rparr>)"

text \<open>\<^verbatim>\<open>sendToTargetAPI(payload)\<close>, lines 69-83 and 329-340.\<close>

definition sendToTargetAPI :: "env \<Rightarrow> jval \<Rightarrow> unit io" where
  "sendToTargetAPI env payload =
     bind (writeLog env ''sent-to-api.log.json'' payload) (\<lambda>u.
     bind (post_target env payload) (\<lambda>r.
       case r of
         None \<Rightarrow> return ()
       | Some msg \<Rightarrow>
           writeLog env ''sent-to-api-error.log.json''
             (JObj [(''error'', JStr msg), (''payload'', payload)])))"

section \<open>Permit expiry\<close>

text \<open>
  \<^verbatim>\<open>isPermitExpired(validTill)\<close>, lines 85-89 and 343-346. The comparison of the two
  dates is false when \<^verbatim>\<open>new Date(validTill)\<close> is an invalid date.
\<close>

definition isPermitExpired :: "env \<Rightarrow> jval \<Rightarrow> bool io" where
  "isPermitExpired env validTill =
     (if \<not> truthy validTill then return True
      else bind (new_Date env) (\<lambda>now.
             return (case date_value env validTill of None \<Rightarrow> False | Some d \<Rightarrow> d < now)))"

section \<open>The permit authority\<close>

text \<open>\<^verbatim>\<open>Object.keys(o).find(k => k.toLowerCase().includes(part))\<close>, and the property name
  that the result is when it indexes an object (\<^verbatim>\<open>undefined\<close> reads the property of
  that name).\<close>

definition find_key :: "env \<Rightarrow> string \<Rightarrow> string list \<Rightarrow> string option" where
  "find_key env part ks = find (\<lambda>k. includes_str (lowerCase env k) part) ks"

definition key_name :: "string option \<Rightarrow> string" where
  "key_name k = (case k of None \<Rightarrow> ''undefined'' | Some s \<Rightarrow> s)"

text \<open>
  The walk both variants of \<^verbatim>\<open>parseSoapResponse\<close> make through the parsed reply, down
  to the permit details \<^verbatim>\<open>d\<close> (lines 116-128 and 371-376). Every step throws a
  TypeError when it reads a property of \<^verbatim>\<open>undefined\<close> or \<^verbatim>\<open>null\<close>.
\<close>

definition permit_details :: "env \<Rightarrow> string \<Rightarrow> error + jval" where
  "permit_details env xml =
     bindE (xml2js env xml) (\<lambda>parsed.
     bindE (object_keys parsed) (\<lambda>ks.
     bindE (get_prop parsed (key_name (find_key env ''envelope'' ks))) (\<lambda>envelope.
     bindE (object_keys envelope) (\<lambda>ks'.
     bindE (get_prop envelope (key_name (find_key env ''body'' ks'))) (\<lambda>body.
     bindE (get_prop body ''EmptyTrailerOutput'') (\<lambda>output.
     get_prop output ''tns:PermitDTLS''))))))"

text \<open>\<^verbatim>\<open>parseSoapResponse(xml)\<close> of the first variant, lines 115-140.\<close>

definition parseSoapResponse_v1 :: "env \<Rightarrow> string \<Rightarrow> error + jval" where
  "parseSoapResponse_v1 env xml =
     bindE (permit_details env xml) (\<lambda>d.
     bindE (get_prop d ''tns:PermitNumber'') (\<lambda>permitNumber.
       Inr (JObj
         [(''permitNumber'', permitNumber),
          (''containerNumber'', read_prop d ''tns:ContainerNumber''),
          (''containerSize'', read_prop d ''tns:ContainerSize''),
          (''containerType'', read_prop d ''tns:ContainerType''),
          (''containerStatus'', read_prop d ''tns:ContainerStatus''),
          (''vehicleNumber'', read_prop d ''tns:VechileNumber''),
          (''slineCode'', read_prop d ''tns:SlineCode''),
          (''lddMtFlag'', read_prop d ''tns:LDD_MT_Flg'')])))"

text \<open>\<^verbatim>\<open>parseSoapResponse(xml)\<close> of the second variant, lines 370-384.\<close>

definition parseSoapResponse_v2 :: "env \<Rightarrow> string \<Rightarrow> error + jval" where
  "parseSoapResponse_v2 env xml =
     bindE (permit_details env xml) (\<lambda>d.
     bindE (get_prop d ''tns:PermitNumber'') (\<lambda>permitNumber.
       Inr (JObj
         [(''permitNumber'', permitNumber),
          (''containerNumber'', read_prop d ''tns:ContainerNumber''),
          (''vehicleNumber'', read_prop d ''tns:VechileNumber''),
          (''isPermitValidTill'', read_prop d ''tns:IsPermitValid'')])))"

text \<open>\<^verbatim>\<open>axios.post(SOAP_URL, soapXml, ...)\<close>: the request carries the permit number.\<close>

definition post_soap :: "env \<Rightarrow> jval \<Rightarrow> string io" where
  "post_soap env permitNumber w =
     (soap_reply env permitNumber, w\<lparr>trace := trace w @ [SoapCall permitNumber]\<rparr>)"

text \<open>\<^verbatim>\<open>callSoapApi(permitNumber)\<close>, lines 93-113 and 349-368.\<close>

definition callSoapApi_v1 :: "env \<Rightarrow> jval \<Rightarrow> jval io" where
  "callSoapApi_v1 env permitNumber =
     bind (post_soap env permitNumber) (\<lambda>xml. lift (parseSoapResponse_v1 env xml))"

definition callSoapApi_v2 :: "env \<Rightarrow> jval \<Rightarrow> jval io" where
  "callSoapApi_v2 env permitNumber =
     bind (post_soap env permitNumber) (\<lambda>xml. lift (parseSoapResponse_v2 env xml))"

section \<open>The validation endpoint\<close>

text \<open>
  The response the handler sends: \<^verbatim>\<open>res.status(n).json(body)\<close>, with status 200 when
  the handler sets none.
\<close>

record response =
  status :: nat
  body :: jval

text \<open>
  The \<^verbatim>\<open>catch\<close> of both handlers (lines 242-245 and 478-481): an error thrown in
  the \<^verbatim>\<open>try\<close> block is logged and answered with status 500. When that log write
  throws as well, the handler sends no response.
\<close>

definition catch_500 :: "env \<Rightarrow> response io \<Rightarrow> world \<Rightarrow> response option \<times> world" where
  "catch_500 env m w =
     (case m w of
        (Inr r, w') \<Rightarrow> (Some r, w')
      | (Inl err, w') \<Rightarrow>
          (case writeLog env ''error.log.json'' (JObj [(''error'', JStr (message err))]) w' of
             (Inr u, w'') \<Rightarrow>
               (Some \<lparr>status = 500, body = JObj [(''error'', JStr (message err))]\<rparr>, w'')
           | (Inl err', w'') \<Rightarrow> (None, w'')))"

subsection \<open>First variant\<close>

text \<open>The manual confirm flow, lines 150-167.\<close>

definition manual_v1 :: "env \<Rightarrow> jval \<Rightarrow> response io" where
  "manual_v1 env client =
     bind (new_Date env) (\<lambda>t.
       let payload = JObj
             [(''source'', JStr ''manual''),
              (''client'', client),
              (''soapData'', JNull),
              (''timestamp'', JStr (toISOString env t))]
       in
       bind (writeLog env ''matched.log.json'' payload) (\<lambda>u.
       bind (sendToTargetAPI env payload) (\<lambda>u.
       bind (emit ''gate:matched'' payload) (\<lambda>u.
       return \<lparr>status = 200, body = JObj
         [(''success'', JBool True),
          (''message'', JStr ''Manually confirmed & sent'')]\<rparr>))))"

text \<open>The expiry branch, lines 172-189.\<close>

definition expired_v1 :: "env \<Rightarrow> jval \<Rightarrow> jval \<Rightarrow> response io" where
  "expired_v1 env client soapData =
     bind (new_Date env) (\<lambda>t.
       let payload = JObj
             [(''client'', client),
              (''soapData'', soapData),
              (''reason'', JStr ''PERMIT_EXPIRED''),
              (''timestamp'', JStr (toISOString env t))]
       in
       bind (writeLog env ''invalid.log.json'' payload) (\<lambda>u.
       bind (emit ''gate:invalid'' payload) (\<lambda>u.
       return \<lparr>status = 422, body = JObj
         [(''success'', JBool False),
          (''type'', JStr ''INVALID_PERMIT''),
          (''message'', JStr ''Permit is expired''),
          (''soapData'', soapData)]\<rparr>)))"

text \<open>The mismatch list, lines 191-210.\<close>

definition mismatches_v1 :: "jval \<Rightarrow> jval \<Rightarrow> jval list" where
  "mismatches_v1 client soapData =
     (if \<not> strict_eq (read_prop client ''permitNumber'') (read_prop soapData ''permitNumber'')
      then [JObj [(''field'', JStr ''permitNumber''),
                  (''client'', read_prop client ''permitNumber''),
                  (''soap'', read_prop soapData ''permitNumber'')]]
      else [])
     @
     (if truthy (read_prop client ''containerNumber'') \<and>
         \<not> strict_eq (read_prop client ''containerNumber'') (read_prop soapData ''containerNumber'')
      then [JObj [(''field'', JStr ''containerNumber''),
                  (''client'', read_prop client ''containerNumber''),
                  (''soap'', read_prop soapData ''containerNumber'')]]
      else [])"

text \<open>The final decision, lines 191-240.\<close>

definition reconcile_v1 :: "env \<Rightarrow> jval \<Rightarrow> jval \<Rightarrow> response io" where
  "reconcile_v1 env client soapData =
     (let mismatches = mismatches_v1 client soapData in
      if length mismatches = 0 then
        bind (new_Date env) (\<lambda>t.
          let payload = JObj
                [(''source'', JStr ''soap''),
                 (''client'', client),
                 (''soapData'', soapData),
                 (''timestamp'', JStr (toISOString env t))]
          in
          bind (writeLog env ''matched.log.json'' payload) (\<lambda>u.
          bind (sendToTargetAPI env payload) (\<lambda>u.
          bind (emit ''gate:matched'' payload) (\<lambda>u.
          return \<lparr>status = 200, body = JObj
            [(''success'', JBool True),
             (''soapData'', soapData)]\<rparr>))))
      else
        let report = JObj
              [(''client'', client),
               (''soapData'', soapData),
               (''mismatches'', JArr mismatches)]
        in
        bind (writeLog env ''mismatch.log.json'' report) (\<lambda>u.
        bind (emit ''gate:mismatch'' report) (\<lambda>u.
        return \<lparr>status = 409, body = JObj
          [(''success'', JBool False),
           (''mismatches'', JArr mismatches),
           (''soapData'', soapData)]\<rparr>)))"

text \<open>
  The \<^verbatim>\<open>try\<close> block of the handler, lines 145-240, and the handler. The request body
  \<^verbatim>\<open>client\<close> is any value; the first read of a property of it throws when it is
  \<^verbatim>\<open>undefined\<close> or \<^verbatim>\<open>null\<close>, so the reads after it cannot.
\<close>

definition try_v1 :: "env \<Rightarrow> jval \<Rightarrow> response io" where
  "try_v1 env client =
     bind (writeLog env ''incoming.log.json'' (JObj [(''body'', client)])) (\<lambda>u.
     bind (lift (get_prop client ''confirmedByUser'')) (\<lambda>confirmedByUser.
       if confirmedByUser = JBool True then manual_v1 env client
       else
         bind (callSoapApi_v1 env (read_prop client ''permitNumber'')) (\<lambda>soapData.
         bind (isPermitExpired env (read_prop soapData ''isPermitValidTill'')) (\<lambda>expired.
           if expired then expired_v1 env client soapData
           else reconcile_v1 env client soapData))))"

definition validate_v1 :: "env \<Rightarrow> jval \<Rightarrow> world \<Rightarrow> response option \<times> world" where
  "validate_v1 env client = catch_500 env (try_v1 env client)"

subsection \<open>Second variant\<close>

text \<open>The global expiry check's branch, lines 395-411.\<close>

definition expired_v2 :: "env \<Rightarrow> jval \<Rightarrow> jval \<Rightarrow> response io" where
  "expired_v2 env client soapData =
     (let payload = JObj
            [(''client'', client),
             (''soapData'', soapData),
             (''reason'', JStr ''PERMIT_EXPIRED'')]
      in
      bind (writeLog env ''invalid.log.json'' payload) (\<lambda>u.
      bind (emit ''gate:invalid'' payload) (\<lambda>u.
      return \<lparr>status = 422, body = JObj
        [(''success'', JBool False),
         (''type'', JStr ''PERMIT_EXPIRED''),
         (''message'', JStr ''Permit is expired''),
         (''soapData'', soapData)]\<rparr>)))"

text \<open>\<^verbatim>\<open>requireContainer\<close>, lines 418-420, as a function of the gate type and the
  permit prefix.\<close>

definition requireContainer :: "string \<Rightarrow> string \<Rightarrow> bool" where
  "requireContainer gateType prefix =
     ((gateType = ''GATE_IN'' \<and> prefix = ''PMA'') \<or>
      (gateType = ''GATE_OUT'' \<and> prefix \<in> set [''PMD'', ''GPC'']))"

text \<open>The vehicle check, lines 423-437.\<close>

definition vehicle_check :: "jval \<Rightarrow> jval \<Rightarrow> jval list" where
  "vehicle_check client soapData =
     (if \<not> truthy (read_prop client ''vehicleNumber'') then
        [JObj [(''field'', JStr ''vehicleNumber''),
               (''reason'', JStr ''Vehicle number missing from validate payload'')]]
      else if truthy (read_prop soapData ''vehicleNumber'') \<and>
              \<not> strict_eq (read_prop client ''vehicleNumber'') (read_prop soapData ''vehicleNumber'')
      then
        [JObj [(''field'', JStr ''vehicleNumber''),
               (''client'', read_prop client ''vehicleNumber''),
               (''soap'', read_prop soapData ''vehicleNumber'')]]
      else [])"

text \<open>The container check, lines 440-452.\<close>

definition container_check :: "bool \<Rightarrow> jval \<Rightarrow> jval \<Rightarrow> jval list" where
  "container_check required client soapData =
     (if required then
        (if truthy (read_prop client ''containerNumber'') \<and>
            truthy (read_prop soapData ''containerNumber'') \<and>
            \<not> strict_eq (read_prop client ''containerNumber'') (read_prop soapData ''containerNumber'')
         then
           [JObj [(''field'', JStr ''containerNumber''),
                  (''client'', read_prop client ''containerNumber''),
                  (''soap'', read_prop soapData ''containerNumber'')]]
         else [])
      else [])"

text \<open>
  The mismatch list, lines 413-452. The prefix and the gate type are computed first;
  \<^verbatim>\<open>substring\<close> and \<^verbatim>\<open>toUpperCase\<close> throw when the permit number or the gate type
  of the request is truthy and not a string.
\<close>

definition mismatches_v2 :: "env \<Rightarrow> jval \<Rightarrow> jval \<Rightarrow> error + jval list" where
  "mismatches_v2 env client soapData =
     bindE (substring_0_3 (or_empty (read_prop client ''permitNumber''))) (\<lambda>prefix.
     bindE (toUpperCase env (or_empty (read_prop client ''gateType''))) (\<lambda>gateType.
       Inr (vehicle_check client soapData @
            container_check (requireContainer gateType prefix) client soapData)))"

text \<open>The final decision, lines 413-476.\<close>

definition reconcile_v2 :: "env \<Rightarrow> jval \<Rightarrow> jval \<Rightarrow> response io" where
  "reconcile_v2 env client soapData =
     bind (lift (mismatches_v2 env client soapData)) (\<lambda>mismatches.
       if length mismatches = 0 then
         let payload = JObj
               [(''source'', JStr ''soap''),
                (''client'', client),
                (''soapData'', soapData)]
         in
         bind (writeLog env ''matched.log.json'' payload) (\<lambda>u.
         bind (sendToTargetAPI env payload) (\<lambda>u.
         bind (emit ''gate:matched'' payload) (\<lambda>u.
         return \<lparr>status = 200, body = JObj
           [(''success'', JBool True),
            (''soapData'', soapData)]\<rparr>)))
       else
         let report = JObj
               [(''client'', client),
                (''soapData'', soapData),
                (''mismatches'', JArr mismatches)]
         in
         bind (writeLog env ''mismatch.log.json'' report) (\<lambda>u.
         bind (emit ''gate:mismatch'' report) (\<lambda>u.
         return \<lparr>status = 409, body = JObj
           [(''success'', JBool False),
            (''mismatches'', JArr mismatches),
            (''soapData'', soapData)]\<rparr>)))"

text \<open>
  The \<^verbatim>\<open>try\<close> block of the handler, lines 389-476, and the handler. Here the first
  read of a property of the request body is that of the permit number.
\<close>

definition try_v2 :: "env \<Rightarrow> jval \<Rightarrow> response io" where
  "try_v2 env client =
     bind (writeLog env ''incoming.log.json'' client) (\<lambda>u.
     bind (lift (get_prop client ''permitNumber'')) (\<lambda>permitNumber.
     bind (callSoapApi_v2 env permitNumber) (\<lambda>soapData.
     bind (isPermitExpired env (read_prop soapData ''isPermitValidTill'')) (\<lambda>expired.
       if expired then expired_v2 env client soapData
       else reconcile_v2 env client soapData))))"

definition validate_v2 :: "env \<Rightarrow> jval \<Rightarrow> world \<Rightarrow> response option \<times> world" where
  "validate_v2 env client = catch_500 env (try_v2 env client)"

section \<open>Runs and examples\<close>

text \<open>A sequence of appends to one category: \<^verbatim>\<open>writeLog(file, d)\<close> for each \<open>d\<close> of a
  list, in order, stopping at the first that throws.\<close>

fun writeLog_all :: "env \<Rightarrow> string \<Rightarrow> jval list \<Rightarrow> unit io" where
  "writeLog_all env file [] = return ()"
| "writeLog_all env file (d # ds) = bind (writeLog env file d) (\<lambda>u. writeLog_all env file ds)"

text \<open>
  The world after a write to a log that can be appended to, and after a forward whose
  two logs can be appended to (lemmas \<open>writeLog_appendable\<close> and
  \<open>sendToTargetAPI_appendable\<close> below).
\<close>

definition logged :: "env \<Rightarrow> string \<Rightarrow> jval \<Rightarrow> world \<Rightarrow> world" where
  "logged env file data w =
     w\<lparr>ticks := Suc (ticks w),
       files := (files w)(file \<mapsto>
         Json (JArr (map json_elem (history w file) @
                     [jsonify (log_entry env (clock env (ticks w)) data)]))),
       trace := trace w @ [Wrote file]\<rparr>"

definition forwarded :: "env \<Rightarrow> jval \<Rightarrow> world \<Rightarrow> world" where
  "forwarded env payload w =
     (let w1 = logged env ''sent-to-api.log.json'' payload w;
          w2 = w1\<lparr>trace := trace w1 @ [Post payload]\<rparr>
      in case target_reply env payload of
           None \<Rightarrow> w2
         | Some msg \<Rightarrow>
             logged env ''sent-to-api-error.log.json''
               (JObj [(''error'', JStr msg), (''payload'', payload)]) w2)"

text \<open>
  An example: an empty log directory, a clock, an authority whose reply parses to a SOAP
  envelope around the permit details \<open>d\<close>, dates of which one lies before and one after
  every reading of the clock, a target API that accepts (\<open>None\<close>) or refuses with a
  message, and case mappings that map the ASCII letters and leave every other character.
\<close>

definition ex_world :: world where
  "ex_world = \<lparr>files = Map.empty, ticks = 0, trace = []\<rparr>"

definition ex_tree :: "jval \<Rightarrow> jval" where
  "ex_tree d =
     JObj [(''soapenv:Envelope'',
       JObj [(''soapenv:Body'',
         JObj [(''EmptyTrailerOutput'',
           JObj [(''tns:PermitDTLS'', d)])])])]"

definition to_upper_char :: "char \<Rightarrow> char" where
  "to_upper_char c =
     (case map_of (zip ''abcdefghijklmnopqrstuvwxyz'' ''ABCDEFGHIJKLMNOPQRSTUVWXYZ'') c of
        None \<Rightarrow> c | Some u \<Rightarrow> u)"

definition to_lower_char :: "char \<Rightarrow> char" where
  "to_lower_char c =
     (case map_of (zip ''ABCDEFGHIJKLMNOPQRSTUVWXYZ'' ''abcdefghijklmnopqrstuvwxyz'') c of
        None \<Rightarrow> c | Some l \<Rightarrow> l)"

definition ex_env :: "jval \<Rightarrow> string option \<Rightarrow> env" where
  "ex_env d target =
     \<lparr>clock = (\<lambda>k. 1000 + int k),
      toISOString = (\<lambda>t. ''T'' @ show_nat (nat t)),
      date_value = (\<lambda>v. if v = JStr ''2001-01-01'' then Some 1
                         else if v = JStr ''2099-12-31'' then Some 5000 else None),
      soap_reply = (\<lambda>p. Inr ''<reply/>''),
      xml2js = (\<lambda>xml. Inr (ex_tree d)),
      target_reply = (\<lambda>payload. target),
      upperCase = map to_upper_char,
      lowerCase = map to_lower_char\<rparr>"

definition ex_client :: jval where
  "ex_client =
     JObj [(''permitNumber'', JStr ''PMA1001''),
           (''gateType'', JStr ''GATE_IN''),
           (''vehicleNumber'', JStr ''MH12AB1234'')]"

definition ex_details :: "string \<Rightarrow> jval" where
  "ex_details valid =
     JObj [(''tns:PermitNumber'', JStr ''PMA1001''),
           (''tns:VechileNumber'', JStr ''MH12AB1234''),
           (''tns:IsPermitValid'', JStr valid)]"

text \<open>What \<^verbatim>\<open>parseSoapResponse\<close> makes of these permit details, in each variant.\<close>

definition ex_record_v1 :: jval where
  "ex_record_v1 =
     JObj [(''permitNumber'', JStr ''PMA1001''),
           (''containerNumber'', JUndefined),
           (''containerSize'', JUndefined),
           (''containerType'', JUndefined),
           (''containerStatus'', JUndefined),
           (''vehicleNumber'', JStr ''MH12AB1234''),
           (''slineCode'', JUndefined),
           (''lddMtFlag'', JUndefined)]"

definition ex_record_v2 :: "string \<Rightarrow> jval" where
  "ex_record_v2 valid =
     JObj [(''permitNumber'', JStr ''PMA1001''),
           (''containerNumber'', JUndefined),
           (''vehicleNumber'', JStr ''MH12AB1234''),
           (''isPermitValidTill'', JStr valid)]"

text \<open>An outbound request with a container, and an authority record that names another
  container and no vehicle.\<close>

definition ex_out_client :: jval where
  "ex_out_client =
     JObj [(''permitNumber'', JStr ''PMD2002''),
           (''gateType'', JStr ''gate_out''),
           (''vehicleNumber'', JStr ''V1''),
           (''containerNumber'', JStr ''C1'')]"

definition ex_out_record :: jval where
  "ex_out_record =
     JObj [(''permitNumber'', JStr ''PMD2002''),
           (''containerNumber'', JStr ''C2''),
           (''vehicleNumber'', JUndefined),
           (''isPermitValidTill'', JStr ''2099-12-31'')]"

text \<open>A request whose permit number is a number, and a log directory with one file,
  which holds the JSON of a value.\<close>

definition ex_numeric_client :: jval where
  "ex_numeric_client =
     JObj [(''permitNumber'', JNum 123),
           (''gateType'', JStr ''GATE_IN''),
           (''vehicleNumber'', JStr ''MH12AB1234'')]"

definition ex_world_with :: "string \<Rightarrow> jval \<Rightarrow> world" where
  "ex_world_with file v = \<lparr>files = [file \<mapsto> Json v], ticks = 0, trace = []\<rparr>"

section \<open>Facts about JSON and objects\<close>

lemma jsonify_arr: "jsonify (JArr xs) = JArr (map json_elem xs)"
  by (simp add: json_elem_def)

lemma jsonify_undefined_iff: "jsonify v = JUndefined \<longleftrightarrow> v = JUndefined"
  by (cases v) simp_all

lemma jsonify_idem: "jsonify (jsonify v) = jsonify v"
proof (induction v rule: jsonify.induct)
  case (1 xs)
  then show ?case
    by (auto simp: jsonify_undefined_iff)
next
  case (2 kvs)
  then show ?case
    by (auto simp: jsonify_undefined_iff filter_map o_def filter_id_conv)
qed simp_all

lemma json_elem_jsonify: "v \<noteq> JUndefined \<Longrightarrow> json_elem (jsonify v) = jsonify v"
  by (simp add: json_elem_def jsonify_undefined_iff jsonify_idem)

lemma put_head: "k' \<noteq> k \<Longrightarrow> put k' v' ((k, v) # ps) = (k, v) # put k' v' ps"
  by simp

lemma assign_head:
  "k \<notin> fst ` set kvs \<Longrightarrow> \<exists>rest. assign ((k, v) # ps) kvs = (k, v) # rest"
proof (induction kvs arbitrary: ps)
  case Nil
  then show ?case by simp
next
  case (Cons kv kvs)
  obtain k' v' where kv: "kv = (k', v')" by (cases kv)
  with Cons.prems have "k' \<noteq> k" and "k \<notin> fst ` set kvs" by auto
  with Cons.IH [of "put k' v' ps"] kv show ?case by simp
qed

lemma log_entry_defined: "log_entry env t d \<noteq> JUndefined"
  by (simp add: log_entry_def)

lemma timestamp_kept:
  assumes "''timestamp'' \<notin> fst ` set (own_entries d)"
  shows "read_prop (jsonify (log_entry env t d)) ''timestamp'' = JStr (toISOString env t)"
proof -
  from assign_head [OF assms] obtain rest where
    "assign [(''timestamp'', JStr (toISOString env t))] (own_entries d) =
       (''timestamp'', JStr (toISOString env t)) # rest"
    by blast
  then show ?thesis
    by (simp add: log_entry_def read_prop_def)
qed

lemma get_prop_Inr: "get_prop v k = Inr x \<longleftrightarrow> \<not> nullish v \<and> x = read_prop v k"
  by (auto simp: get_prop_def)

lemma field_of_detail [simp]: "read_prop (JObj ((''field'', v) # rest)) ''field'' = v"
  by (simp add: read_prop_def)

section \<open>Facts about the log helpers\<close>

lemma readLog_load_arr: "load_arr w f = readLog w f"
  by (simp add: load_arr_def readLog_def)

lemma writeLog_appendable:
  "appendable w f \<Longrightarrow> writeLog env f d w = (Inr (), logged env f d w)"
  by (auto simp: appendable_def history_def writeLog_def readLog_load_arr bind_def
        new_Date_def writeFile_def logged_def json_elem_def[abs_def] log_entry_defined
      split: jval.splits)

lemma readLog_logged:
  "readLog (logged env f d w) g =
     (if g = f
      then JArr (map json_elem (history w f) @ [jsonify (log_entry env (clock env (ticks w)) d)])
      else readLog w g)"
  by (simp add: readLog_def logged_def)

lemma appendable_logged [simp]: "appendable (logged env f d w) g = (g = f \<or> appendable w g)"
  by (simp add: appendable_def readLog_logged)

lemma history_logged [simp]:
  "history (logged env f d w) g =
     (if g = f
      then map json_elem (history w f) @ [jsonify (log_entry env (clock env (ticks w)) d)]
      else history w g)"
  by (simp add: history_def readLog_logged)

lemma ticks_logged [simp]: "ticks (logged env f d w) = Suc (ticks w)"
  by (simp add: logged_def)

lemma trace_logged [simp]: "trace (logged env f d w) = trace w @ [Wrote f]"
  by (simp add: logged_def)

lemma readLog_trace_update [simp]: "readLog (w\<lparr>trace := t\<rparr>) f = readLog w f"
  by (simp add: readLog_def)

lemma readLog_ticks_update [simp]: "readLog (w\<lparr>ticks := n\<rparr>) f = readLog w f"
  by (simp add: readLog_def)

lemma appendable_trace_update [simp]: "appendable (w\<lparr>trace := t\<rparr>) f = appendable w f"
  by (simp add: appendable_def)

lemma appendable_ticks_update [simp]: "appendable (w\<lparr>ticks := n\<rparr>) f = appendable w f"
  by (simp add: appendable_def)

lemma history_trace_update [simp]: "history (w\<lparr>trace := t\<rparr>) f = history w f"
  by (simp add: history_def)

lemma history_ticks_update [simp]: "history (w\<lparr>ticks := n\<rparr>) f = history w f"
  by (simp add: history_def)

lemma readLog_history: "appendable w f \<Longrightarrow> readLog w f = JArr (history w f)"
  by (simp add: appendable_def history_def split: jval.splits)

lemma empty_history: "readLog w f = JArr [] \<Longrightarrow> appendable w f \<and> history w f = []"
  by (simp add: appendable_def history_def)

lemma logs_ok_iff:
  "logs_ok w \<longleftrightarrow>
     appendable w ''incoming.log.json'' \<and> appendable w ''matched.log.json'' \<and>
     appendable w ''mismatch.log.json'' \<and> appendable w ''invalid.log.json'' \<and>
     appendable w ''error.log.json'' \<and> appendable w ''sent-to-api.log.json'' \<and>
     appendable w ''sent-to-api-error.log.json''"
  by (simp add: logs_ok_def log_files_def)

lemma logs_ok_logged [simp]: "logs_ok w \<Longrightarrow> logs_ok (logged env f d w)"
  by (simp add: logs_ok_iff)

lemma logs_ok_trace_update [simp]: "logs_ok (w\<lparr>trace := t\<rparr>) = logs_ok w"
  by (simp add: logs_ok_iff)

lemma logs_ok_ticks_update [simp]: "logs_ok (w\<lparr>ticks := n\<rparr>) = logs_ok w"
  by (simp add: logs_ok_iff)

text \<open>History entries that a rewrite of the file leaves as they are.\<close>

lemma writeLog_all_history:
  assumes "appendable w file"
    and "\<forall>x \<in> set (history w file). json_elem x = x"
  shows "\<exists>w'. writeLog_all env file ds w = (Inr (), w') \<and>
      appendable w' file \<and>
      history w' file = history w file @
        map (\<lambda>i. jsonify (log_entry env (clock env (ticks w + i)) (ds ! i))) [0..<length ds]"
  using assms
proof (induction ds arbitrary: w)
  case Nil
  then show ?case by (simp add: return_def)
next
  case (Cons d ds)
  let ?w1 = "logged env file d w"
  have same: "map json_elem (history w file) = history w file"
    using Cons.prems(2) by (simp add: map_idI)
  have a1: "appendable ?w1 file" by simp
  have n1: "\<forall>x \<in> set (history ?w1 file). json_elem x = x"
    using Cons.prems(2) by (auto simp: json_elem_jsonify log_entry_defined)
  from Cons.IH [OF a1 n1] obtain w' where
    run: "writeLog_all env file ds ?w1 = (Inr (), w')" and ok: "appendable w' file"
    and h: "history w' file = history ?w1 file @
        map (\<lambda>i. jsonify (log_entry env (clock env (ticks ?w1 + i)) (ds ! i))) [0..<length ds]"
    by blast
  have "map (\<lambda>i. jsonify (log_entry env (clock env (ticks w + i)) ((d # ds) ! i))) [0..<length (d # ds)] =
      jsonify (log_entry env (clock env (ticks w)) d) #
      map (\<lambda>i. jsonify (log_entry env (clock env (Suc (ticks w) + i)) (ds ! i))) [0..<length ds]"
    by (simp add: upt_conv_Cons map_Suc_upt [symmetric] del: upt_Suc)
  then show ?case
    using run ok h Cons.prems(1)
    by (simp add: bind_def writeLog_appendable same)
qed

text \<open>
  A log file whose JSON is not an array cannot be appended to: \<^verbatim>\<open>arr.push\<close> is not a
  function there, and the error leaves \<^verbatim>\<open>writeLog\<close>, and with it
  \<^verbatim>\<open>sendToTargetAPI\<close>, whose first write stands outside its \<^verbatim>\<open>try\<close>. No write of
  the service produces such a file.
\<close>

lemma writeLog_on_non_array:
  "readLog w f = JObj kvs \<Longrightarrow> fst (writeLog env f d w) = Inl (TypeError ''arr.push is not a function'')"
  by (simp add: writeLog_def readLog_load_arr bind_def new_Date_def throw_def)

section \<open>Facts about the forward, the authority and the checks\<close>

lemmas handler_defs =
  catch_500_def bind_def lift_def return_def throw_def new_Date_def emit_def post_soap_def Let_def

lemma sendToTargetAPI_appendable:
  "appendable w ''sent-to-api.log.json'' \<Longrightarrow> appendable w ''sent-to-api-error.log.json'' \<Longrightarrow>
   sendToTargetAPI env payload w = (Inr (), forwarded env payload w)"
  by (simp add: sendToTargetAPI_def bind_def writeLog_appendable post_target_def forwarded_def
      return_def Let_def split: option.splits)

lemma appendable_forwarded [simp]:
  "appendable w g \<Longrightarrow> appendable (forwarded env p w) g"
  by (simp add: forwarded_def Let_def split: option.splits)

lemma trace_forwarded [simp]:
  "trace (forwarded env p w) =
     trace w @ [Wrote ''sent-to-api.log.json'', Post p] @
     (case target_reply env p of None \<Rightarrow> [] | Some msg \<Rightarrow> [Wrote ''sent-to-api-error.log.json''])"
  by (simp add: forwarded_def Let_def split: option.splits)

lemma history_forwarded [simp]:
  "g \<noteq> ''sent-to-api.log.json'' \<Longrightarrow> g \<noteq> ''sent-to-api-error.log.json'' \<Longrightarrow>
   history (forwarded env p w) g = history w g"
  by (simp add: forwarded_def Let_def split: option.splits)

lemma sendToTargetAPI_on_non_array:
  "readLog w ''sent-to-api.log.json'' = JObj kvs \<Longrightarrow>
   fst (sendToTargetAPI env payload w) = Inl (TypeError ''arr.push is not a function'')"
  using writeLog_on_non_array [of w "''sent-to-api.log.json''" kvs env payload]
  by (auto simp add: sendToTargetAPI_def bind_def split: prod.splits sum.splits)

lemma parse_v2_obj:
  "parseSoapResponse_v2 env xml = Inr sd \<Longrightarrow> \<exists>kvs. sd = JObj kvs"
  by (auto simp: parseSoapResponse_v2_def bindE_def split: sum.splits)

lemma parse_v1_obj:
  "parseSoapResponse_v1 env xml = Inr sd \<Longrightarrow> \<exists>kvs. sd = JObj kvs"
  by (auto simp: parseSoapResponse_v1_def bindE_def split: sum.splits)

lemma parse_v1_no_validity:
  "parseSoapResponse_v1 env xml = Inr sd \<Longrightarrow> read_prop sd ''isPermitValidTill'' = JUndefined"
  by (auto simp: parseSoapResponse_v1_def bindE_def read_prop_def split: sum.splits)

lemma isPermitExpired_eq:
  "isPermitExpired env v w =
     (if \<not> truthy v then (Inr True, w)
      else (Inr (\<exists>d. date_value env v = Some d \<and> d < clock env (ticks w)),
            w\<lparr>ticks := Suc (ticks w)\<rparr>))"
  by (simp add: isPermitExpired_def handler_defs split: option.splits)

lemma mismatches_v2_Inr:
  "mismatches_v2 env client soapData = Inr ms \<longleftrightarrow>
     (\<exists>prefix gateType.
        substring_0_3 (or_empty (read_prop client ''permitNumber'')) = Inr prefix \<and>
        toUpperCase env (or_empty (read_prop client ''gateType'')) = Inr gateType \<and>
        ms = vehicle_check client soapData @
             container_check (requireContainer gateType prefix) client soapData)"
  by (auto simp: mismatches_v2_def bindE_def split: sum.splits)

section \<open>Runs of the handlers\<close>

text \<open>
  The run of the second variant's handler when the expiry check says expired, and of the
  first variant's handler on the SOAP flow. All log files can be appended to.
\<close>

lemma run_expired_v2:
  assumes "logs_ok w"
    and "get_prop client ''permitNumber'' = Inr permitNumber"
    and "soap_reply env permitNumber = Inr xml"
    and "parseSoapResponse_v2 env xml = Inr soapData"
    and "fst (isPermitExpired env (read_prop soapData ''isPermitValidTill'')
           (w\<lparr>ticks := Suc (ticks w)\<rparr>)) = Inr True"
  shows "\<exists>w' entry.
     validate_v2 env client w =
       (Some \<lparr>status = 422, body = JObj
          [(''success'', JBool False),
           (''type'', JStr ''PERMIT_EXPIRED''),
           (''message'', JStr ''Permit is expired''),
           (''soapData'', soapData)]\<rparr>, w') \<and>
     trace w' = trace w @
        [Wrote ''incoming.log.json'', SoapCall permitNumber, Wrote ''invalid.log.json'',
         Emit ''gate:invalid'' (JObj
           [(''client'', client), (''soapData'', soapData), (''reason'', JStr ''PERMIT_EXPIRED'')])] \<and>
     history w' ''invalid.log.json'' = map json_elem (history w ''invalid.log.json'') @ [entry] \<and>
     read_prop entry ''client'' = jsonify client \<and>
     read_prop entry ''soapData'' = jsonify soapData \<and>
     read_prop entry ''reason'' = JStr ''PERMIT_EXPIRED'' \<and>
     history w' ''mismatch.log.json'' = history w ''mismatch.log.json''"
proof -
  from assms(4) obtain kvs where sd: "soapData = JObj kvs"
    by (auto dest: parse_v2_obj)
  from assms(2) have c: "client \<noteq> JUndefined" "permitNumber = read_prop client ''permitNumber''"
    by (auto simp: get_prop_Inr nullish_def)
  from assms(5) have e: "\<not> truthy (read_prop soapData ''isPermitValidTill'') \<or>
      (\<exists>d. date_value env (read_prop soapData ''isPermitValidTill'') = Some d \<and>
           d < clock env (Suc (ticks w)))"
    by (simp add: isPermitExpired_eq split: if_splits)
  have run: "try_v2 env client w =
      expired_v2 env client soapData
        (snd (isPermitExpired env (read_prop soapData ''isPermitValidTill'')
           ((logged env ''incoming.log.json'' client w)
              \<lparr>trace := trace w @ [Wrote ''incoming.log.json'', SoapCall permitNumber]\<rparr>)))"
    using assms(1-4) e
    by (auto simp add: logs_ok_iff try_v2_def handler_defs writeLog_appendable
      callSoapApi_v2_def isPermitExpired_eq)
  show ?thesis
    using assms(1) c
    by (auto simp add: validate_v2_def run logs_ok_iff handler_defs expired_v2_def writeLog_appendable
        isPermitExpired_eq log_entry_def read_prop_def sd jsonify_undefined_iff)
qed

lemma run_expired_v1:
  assumes "logs_ok w"
    and "get_prop client ''confirmedByUser'' = Inr confirmed"
    and "confirmed \<noteq> JBool True"
    and "soap_reply env (read_prop client ''permitNumber'') = Inr xml"
    and "parseSoapResponse_v1 env xml = Inr soapData"
  shows "\<exists>w' entry.
     validate_v1 env client w =
       (Some \<lparr>status = 422, body = JObj
          [(''success'', JBool False),
           (''type'', JStr ''INVALID_PERMIT''),
           (''message'', JStr ''Permit is expired''),
           (''soapData'', soapData)]\<rparr>, w') \<and>
     trace w' = trace w @
        [Wrote ''incoming.log.json'', SoapCall (read_prop client ''permitNumber''),
         Wrote ''invalid.log.json'',
         Emit ''gate:invalid'' (JObj
           [(''client'', client), (''soapData'', soapData), (''reason'', JStr ''PERMIT_EXPIRED''),
            (''timestamp'', JStr (toISOString env (clock env (Suc (ticks w)))))])] \<and>
     history w' ''invalid.log.json'' = map json_elem (history w ''invalid.log.json'') @ [entry] \<and>
     read_prop entry ''client'' = jsonify client \<and>
     read_prop entry ''soapData'' = jsonify soapData \<and>
     read_prop entry ''reason'' = JStr ''PERMIT_EXPIRED'' \<and>
     history w' ''mismatch.log.json'' = history w ''mismatch.log.json''"
proof -
  from assms(5) obtain kvs where sd: "soapData = JObj kvs"
    by (auto dest: parse_v1_obj)
  from assms(2) have c: "client \<noteq> JUndefined"
    by (auto simp: get_prop_Inr nullish_def)
  from assms(5) have v: "read_prop soapData ''isPermitValidTill'' = JUndefined"
    by (rule parse_v1_no_validity)
  have run: "try_v1 env client w =
      expired_v1 env client soapData
        ((logged env ''incoming.log.json'' (JObj [(''body'', client)]) w)
           \<lparr>trace := trace w @
              [Wrote ''incoming.log.json'', SoapCall (read_prop client ''permitNumber'')]\<rparr>)"
    using assms v
    by (auto simp add: logs_ok_iff try_v1_def handler_defs writeLog_appendable
      callSoapApi_v1_def isPermitExpired_eq)
  show ?thesis
    using assms(1) c
    by (auto simp add: validate_v1_def run logs_ok_iff handler_defs expired_v1_def writeLog_appendable
        log_entry_def read_prop_def sd jsonify_undefined_iff)
qed

text \<open>The decision code of the second variant, from the mismatch list on.\<close>

lemma reconcile_v2_run:
  assumes "logs_ok w" and "client \<noteq> JUndefined" and "soapData \<noteq> JUndefined"
    and "mismatches_v2 env client soapData = Inr ms"
  shows "\<exists>w' entry.
     reconcile_v2 env client soapData w =
       (Inr (if ms = []
             then \<lparr>status = 200, body = JObj [(''success'', JBool True), (''soapData'', soapData)]\<rparr>
             else \<lparr>status = 409, body = JObj
                    [(''success'', JBool False), (''mismatches'', JArr ms), (''soapData'', soapData)]\<rparr>),
        w') \<and>
     trace w' = trace w @
       (if ms = []
        then [Wrote ''matched.log.json'', Wrote ''sent-to-api.log.json'',
              Post (JObj [(''source'', JStr ''soap''), (''client'', client), (''soapData'', soapData)])] @
             (case target_reply env
                     (JObj [(''source'', JStr ''soap''), (''client'', client), (''soapData'', soapData)]) of
                None \<Rightarrow> [] | Some msg \<Rightarrow> [Wrote ''sent-to-api-error.log.json'']) @
             [Emit ''gate:matched''
                (JObj [(''source'', JStr ''soap''), (''client'', client), (''soapData'', soapData)])]
        else [Wrote ''mismatch.log.json'',
              Emit ''gate:mismatch''
                (JObj [(''client'', client), (''soapData'', soapData), (''mismatches'', JArr ms)])]) \<and>
     history w' (if ms = [] then ''matched.log.json'' else ''mismatch.log.json'') =
       map json_elem (history w (if ms = [] then ''matched.log.json'' else ''mismatch.log.json'')) @ [entry] \<and>
     read_prop entry ''soapData'' = jsonify soapData \<and>
     (if ms = [] then read_prop entry ''source'' = JStr ''soap''
      else read_prop entry ''mismatches'' = JArr (map json_elem ms))"
  using assms
  by (auto simp add: reconcile_v2_def logs_ok_iff handler_defs writeLog_appendable
        sendToTargetAPI_appendable log_entry_def read_prop_def jsonify_undefined_iff jsonify_arr
      simp del: jsonify.simps(1))

lemma reconcile_v1_run:
  assumes "logs_ok w"
  shows "\<exists>w'.
     reconcile_v1 env client soapData w =
       (Inr (if mismatches_v1 client soapData = []
             then \<lparr>status = 200, body = JObj [(''success'', JBool True), (''soapData'', soapData)]\<rparr>
             else \<lparr>status = 409, body = JObj
                    [(''success'', JBool False),
                     (''mismatches'', JArr (mismatches_v1 client soapData)),
                     (''soapData'', soapData)]\<rparr>),
        w') \<and>
     trace w' = trace w @
       (if mismatches_v1 client soapData = []
        then [Wrote ''matched.log.json'', Wrote ''sent-to-api.log.json'',
              Post (JObj [(''source'', JStr ''soap''), (''client'', client), (''soapData'', soapData),
                          (''timestamp'', JStr (toISOString env (clock env (ticks w))))])] @
             (case target_reply env
                     (JObj [(''source'', JStr ''soap''), (''client'', client), (''soapData'', soapData),
                            (''timestamp'', JStr (toISOString env (clock env (ticks w))))]) of
                None \<Rightarrow> [] | Some msg \<Rightarrow> [Wrote ''sent-to-api-error.log.json'']) @
             [Emit ''gate:matched''
                (JObj [(''source'', JStr ''soap''), (''client'', client), (''soapData'', soapData),
                       (''timestamp'', JStr (toISOString env (clock env (ticks w))))])]
        else [Wrote ''mismatch.log.json'',
              Emit ''gate:mismatch''
                (JObj [(''client'', client), (''soapData'', soapData),
                       (''mismatches'', JArr (mismatches_v1 client soapData))])])"
  using assms
  by (auto simp add: reconcile_v1_def logs_ok_iff handler_defs writeLog_appendable
        sendToTargetAPI_appendable)

lemma run_reconcile_v2:
  assumes "logs_ok w"
    and "get_prop client ''permitNumber'' = Inr permitNumber"
    and "soap_reply env permitNumber = Inr xml"
    and "parseSoapResponse_v2 env xml = Inr soapData"
    and "fst (isPermitExpired env (read_prop soapData ''isPermitValidTill'')
           (w\<lparr>ticks := Suc (ticks w)\<rparr>)) = Inr False"
    and "mismatches_v2 env client soapData = Inr ms"
  shows "\<exists>w' entry.
     validate_v2 env client w =
       (Some (if ms = []
             then \<lparr>status = 200, body = JObj [(''success'', JBool True), (''soapData'', soapData)]\<rparr>
             else \<lparr>status = 409, body = JObj
                    [(''success'', JBool False), (''mismatches'', JArr ms), (''soapData'', soapData)]\<rparr>),
        w') \<and>
     trace w' = trace w @ [Wrote ''incoming.log.json'', SoapCall permitNumber] @
       (if ms = []
        then [Wrote ''matched.log.json'', Wrote ''sent-to-api.log.json'',
              Post (JObj [(''source'', JStr ''soap''), (''client'', client), (''soapData'', soapData)])] @
             (case target_reply env
                     (JObj [(''source'', JStr ''soap''), (''client'', client), (''soapData'', soapData)]) of
                None \<Rightarrow> [] | Some msg \<Rightarrow> [Wrote ''sent-to-api-error.log.json'']) @
             [Emit ''gate:matched''
                (JObj [(''source'', JStr ''soap''), (''client'', client), (''soapData'', soapData)])]
        else [Wrote ''mismatch.log.json'',
              Emit ''gate:mismatch''
                (JObj [(''client'', client), (''soapData'', soapData), (''mismatches'', JArr ms)])]) \<and>
     history w' (if ms = [] then ''matched.log.json'' else ''mismatch.log.json'') =
       map json_elem (history w (if ms = [] then ''matched.log.json'' else ''mismatch.log.json'')) @ [entry] \<and>
     read_prop entry ''soapData'' = jsonify soapData \<and>
     (if ms = [] then read_prop entry ''source'' = JStr ''soap''
      else read_prop entry ''mismatches'' = JArr (map json_elem ms))"
proof -
  from assms(4) obtain kvs where sd: "soapData = JObj kvs"
    by (auto dest: parse_v2_obj)
  from assms(2) have c: "client \<noteq> JUndefined" "permitNumber = read_prop client ''permitNumber''"
    by (auto simp: get_prop_Inr nullish_def)
  from assms(5) have e: "truthy (read_prop soapData ''isPermitValidTill'')"
      "\<not> (\<exists>d. date_value env (read_prop soapData ''isPermitValidTill'') = Some d \<and>
           d < clock env (Suc (ticks w)))"
    by (simp_all add: isPermitExpired_eq split: if_splits)
  define w2 where "w2 = 
           (logged env ''incoming.log.json'' client w)
              \<lparr>trace := trace w @ [Wrote ''incoming.log.json'', SoapCall permitNumber],
                ticks := Suc (Suc (ticks w))\<rparr>"
  have run: "try_v2 env client w = reconcile_v2 env client soapData w2"
    using assms(1-4) e
    by (auto simp add: logs_ok_iff try_v2_def handler_defs writeLog_appendable w2_def
      callSoapApi_v2_def isPermitExpired_eq)
  have ok: "logs_ok w2" using assms(1) by (simp add: w2_def)
  have sdd: "soapData \<noteq> JUndefined" by (simp add: sd)
  from reconcile_v2_run [OF ok c(1) sdd assms(6)]
  show ?thesis
    by (auto simp add: validate_v2_def run catch_500_def w2_def)
qed

section \<open>The examples evaluated\<close>

lemma ex_logs_ok: "logs_ok ex_world"
  by (simp add: logs_ok_iff appendable_def readLog_def ex_world_def)

lemma ex_appendable: "appendable ex_world f"
  by (simp add: appendable_def readLog_def ex_world_def)

lemma ex_details_walk: "permit_details (ex_env d t) xml = Inr d"
  by (simp add: permit_details_def bindE_def ex_env_def ex_tree_def
      object_keys_def get_prop_def nullish_def find_key_def key_name_def
      to_lower_char_def read_prop_def)

lemma ex_parse_v2:
  "parseSoapResponse_v2 (ex_env (ex_details valid) t) xml = Inr (ex_record_v2 valid)"
  by (simp add: parseSoapResponse_v2_def ex_details_walk bindE_def get_prop_def nullish_def
      read_prop_def ex_details_def ex_record_v2_def)

lemma ex_parse_v1:
  "parseSoapResponse_v1 (ex_env (ex_details valid) t) xml = Inr ex_record_v1"
  by (simp add: parseSoapResponse_v1_def ex_details_walk bindE_def get_prop_def nullish_def
      read_prop_def ex_details_def ex_record_v1_def)

lemma ex_soap_reply: "soap_reply (ex_env d t) p = Inr ''<reply/>''"
  by (simp add: ex_env_def)

lemma ex_client_props:
  "get_prop ex_client ''permitNumber'' = Inr (JStr ''PMA1001'')"
  "get_prop ex_client ''confirmedByUser'' = Inr JUndefined"
  "read_prop ex_client ''permitNumber'' = JStr ''PMA1001''"
  by (simp_all add: get_prop_def nullish_def read_prop_def ex_client_def)

lemma ex_validity: "read_prop (ex_record_v2 valid) ''isPermitValidTill'' = JStr valid"
  by (simp add: read_prop_def ex_record_v2_def)

lemma ex_dates:
  "date_value (ex_env d t) (JStr ''2001-01-01'') = Some 1"
  "date_value (ex_env d t) (JStr ''2099-12-31'') = Some 5000"
  "clock (ex_env d t) k = 1000 + int k"
  by (simp_all add: ex_env_def)

lemma ex_not_expired:
  "fst (isPermitExpired (ex_env d t) (read_prop (ex_record_v2 ''2099-12-31'') ''isPermitValidTill'')
      (ex_world\<lparr>ticks := Suc (ticks ex_world)\<rparr>)) = Inr False"
  by (simp add: isPermitExpired_eq ex_validity ex_dates ex_world_def)

lemma ex_expired:
  "fst (isPermitExpired (ex_env d t) (read_prop (ex_record_v2 ''2001-01-01'') ''isPermitValidTill'')
      (ex_world\<lparr>ticks := Suc (ticks ex_world)\<rparr>)) = Inr True"
  by (simp add: isPermitExpired_eq ex_validity ex_dates ex_world_def)

lemma ex_no_mismatch: "mismatches_v2 (ex_env d t) ex_client (ex_record_v2 valid) = Inr []"
  by (simp add: mismatches_v2_def bindE_def substring_0_3_def toUpperCase_def or_empty_def
      read_prop_def ex_client_def ex_record_v2_def vehicle_check_def container_check_def
      strict_eq_def)

lemma ex_out_prefix:
  "substring_0_3 (or_empty (read_prop ex_out_client ''permitNumber'')) = Inr ''PMD''"
  by (simp add: substring_0_3_def or_empty_def read_prop_def ex_out_client_def)

lemma ex_out_gate:
  "toUpperCase (ex_env d t) (or_empty (read_prop ex_out_client ''gateType'')) = Inr ''GATE_OUT''"
  by (simp add: toUpperCase_def or_empty_def read_prop_def to_upper_char_def ex_out_client_def
      ex_env_def)

lemma ex_out_props:
  "read_prop ex_out_client ''containerNumber'' = JStr ''C1''"
  "read_prop ex_out_record ''containerNumber'' = JStr ''C2''"
  "read_prop ex_out_client ''vehicleNumber'' = JStr ''V1''"
  "read_prop ex_out_record ''vehicleNumber'' = JUndefined"
  "read_prop ex_out_client ''permitNumber'' = JStr ''PMD2002''"
  "read_prop ex_out_record ''permitNumber'' = JStr ''PMD2002''"
  by (simp_all add: read_prop_def ex_out_client_def ex_out_record_def)

section \<open>Log writes that throw, and what the first variant can answer\<close>

lemma writeLog_not_appendable:
  "\<not> appendable w f \<Longrightarrow> \<exists>e w'. writeLog env f d w = (Inl e, w')"
  by (auto simp: appendable_def writeLog_def readLog_load_arr bind_def new_Date_def throw_def
      split: jval.splits)

lemma sendToTargetAPI_returns_iff:
  "(\<exists>w'. sendToTargetAPI env payload w = (Inr (), w')) \<longleftrightarrow>
     appendable w ''sent-to-api.log.json'' \<and>
     (target_reply env payload = None \<or> appendable w ''sent-to-api-error.log.json'')"
proof (cases "appendable w ''sent-to-api.log.json''")
  case False
  from writeLog_not_appendable [OF False, of env payload] show ?thesis
    using False by (auto simp: sendToTargetAPI_def bind_def)
next
  case sent: True
  show ?thesis
  proof (cases "target_reply env payload")
    case None
    with sent show ?thesis
      by (simp add: sendToTargetAPI_def bind_def writeLog_appendable post_target_def return_def)
  next
    case (Some msg)
    show ?thesis
    proof (cases "appendable w ''sent-to-api-error.log.json''")
      case True
      with sent show ?thesis by (simp add: sendToTargetAPI_appendable)
    next
      case False
      let ?w2 = "(logged env ''sent-to-api.log.json'' payload w)
          \<lparr>trace := trace (logged env ''sent-to-api.log.json'' payload w) @ [Post payload]\<rparr>"
      have "\<not> appendable ?w2 ''sent-to-api-error.log.json''" using False by simp
      from writeLog_not_appendable [OF this, of env "JObj [(''error'', JStr msg), (''payload'', payload)]"]
      show ?thesis
        using sent False Some
        by (auto simp: sendToTargetAPI_def bind_def writeLog_appendable post_target_def)
    qed
  qed
qed

lemma v1_never_reconciles:
  assumes "fst (validate_v1 env client w) = Some r"
  shows "status r = 422 \<or> status r = 500 \<or>
     (status r = 200 \<and> get_prop client ''confirmedByUser'' = Inr (JBool True))"
proof -
  have exp: "parseSoapResponse_v1 env xml = Inr sd \<Longrightarrow>
      isPermitExpired env (read_prop sd ''isPermitValidTill'') w1 = (Inr True, w1)" for xml sd w1
    by (simp add: parse_v1_no_validity isPermitExpired_eq)
  have inner: "try_v1 env client w = (Inr r', w') \<Longrightarrow>
      status r' = 422 \<or> (status r' = 200 \<and> get_prop client ''confirmedByUser'' = Inr (JBool True))"
    for r' w'
    by (auto simp add: try_v1_def bind_def lift_def return_def manual_v1_def expired_v1_def
        callSoapApi_v1_def post_soap_def exp Let_def emit_def new_Date_def
        split: sum.splits prod.splits if_splits)
  from assms show ?thesis
    by (auto simp add: validate_v1_def catch_500_def split: sum.splits prod.splits dest: inner)
qed

lemma run_throwing_v2:
  assumes "logs_ok w"
    and "get_prop client ''permitNumber'' = Inr permitNumber"
    and "soap_reply env permitNumber = Inr xml"
    and "parseSoapResponse_v2 env xml = Inr soapData"
    and "fst (isPermitExpired env (read_prop soapData ''isPermitValidTill'')
           (w\<lparr>ticks := Suc (ticks w)\<rparr>)) = Inr False"
    and "mismatches_v2 env client soapData = Inl e"
  shows "\<exists>w'.
     validate_v2 env client w =
       (Some \<lparr>status = 500, body = JObj [(''error'', JStr (message e))]\<rparr>, w') \<and>
     trace w' = trace w @
       [Wrote ''incoming.log.json'', SoapCall permitNumber, Wrote ''error.log.json'']"
proof -
  from assms(2) have c: "permitNumber = read_prop client ''permitNumber''"
    by (auto simp: get_prop_Inr)
  from assms(5) have e: "truthy (read_prop soapData ''isPermitValidTill'')"
      "\<not> (\<exists>d. date_value env (read_prop soapData ''isPermitValidTill'') = Some d \<and>
           d < clock env (Suc (ticks w)))"
    by (simp_all add: isPermitExpired_eq split: if_splits)
  define w2 where "w2 =
           (logged env ''incoming.log.json'' client w)
              \<lparr>trace := trace w @ [Wrote ''incoming.log.json'', SoapCall permitNumber],
                ticks := Suc (Suc (ticks w))\<rparr>"
  have run: "try_v2 env client w = reconcile_v2 env client soapData w2"
    using assms(1-4) e
    by (auto simp add: logs_ok_iff try_v2_def handler_defs writeLog_appendable w2_def
      callSoapApi_v2_def isPermitExpired_eq)
  have ok: "appendable w2 ''error.log.json''" using assms(1) by (simp add: w2_def logs_ok_iff)
  show ?thesis
    using ok assms(6)
    by (simp add: validate_v2_def run catch_500_def reconcile_v2_def bind_def lift_def
        writeLog_appendable w2_def)
qed

lemma ex_numeric_props:
  "get_prop ex_numeric_client ''permitNumber'' = Inr (JNum 123)"
  "mismatches_v2 env ex_numeric_client soapData = Inl (TypeError ''substring is not a function'')"
  by (simp_all add: get_prop_def nullish_def read_prop_def ex_numeric_client_def
      mismatches_v2_def bindE_def or_empty_def substring_0_3_def)

lemma ex_out_run_v1:
  "fst (validate_v1 (ex_env (ex_details ''2099-12-31'') None) ex_out_client ex_world) =
     Some \<lparr>status = 422, body = JObj
          [(''success'', JBool False),
           (''type'', JStr ''INVALID_PERMIT''),
           (''message'', JStr ''Permit is expired''),
           (''soapData'', ex_record_v1)]\<rparr>"
proof -
  have c: "get_prop ex_out_client ''confirmedByUser'' = Inr JUndefined"
    by (simp add: get_prop_def nullish_def read_prop_def ex_out_client_def)
  have n: "JUndefined \<noteq> JBool True" by simp
  from run_expired_v1 [OF ex_logs_ok c n
      ex_soap_reply [of "ex_details ''2099-12-31''" None]
      ex_parse_v1 [of "''2099-12-31''" None]]
  show ?thesis by auto
qed

lemma writeLog_other:
  "writeLog env f d w = (r, w') \<Longrightarrow> g \<noteq> f \<Longrightarrow> readLog w' g = readLog w g"
  by (auto simp: writeLog_def bind_def new_Date_def throw_def writeFile_def readLog_def
      split: jval.splits)

lemma sendToTargetAPI_other:
  assumes "sendToTargetAPI env p w = (r, w')"
    and "g \<noteq> ''sent-to-api.log.json''" and "g \<noteq> ''sent-to-api-error.log.json''"
  shows "readLog w' g = readLog w g"
proof (cases "writeLog env ''sent-to-api.log.json'' p w")
  case (Pair r1 w1)
  note first = writeLog_other [OF Pair assms(2)]
  show ?thesis
  proof (cases r1)
    case (Inl e)
    with assms(1) Pair first show ?thesis
      by (simp add: sendToTargetAPI_def bind_def)
  next
    case (Inr u)
    show ?thesis
    proof (cases "target_reply env p")
      case None
      with assms(1) Pair Inr first show ?thesis
        by (auto simp add: sendToTargetAPI_def bind_def post_target_def return_def)
    next
      case (Some msg)
      let ?w2 = "w1\<lparr>trace := trace w1 @ [Post p]\<rparr>"
      from assms(1) Pair Inr Some
      have "writeLog env ''sent-to-api-error.log.json''
          (JObj [(''error'', JStr msg), (''payload'', p)]) ?w2 = (r, w')"
        by (simp add: sendToTargetAPI_def bind_def post_target_def)
      from writeLog_other [OF this assms(3)] first show ?thesis by simp
    qed
  qed
qed

lemma ex_world_with_props:
  "readLog (ex_world_with f v) f = v"
  "g \<noteq> f \<Longrightarrow> appendable (ex_world_with f v) g"
  "appendable (ex_world_with f (JObj kvs)) f = False"
  "trace (ex_world_with f v) = []"
  "ticks (ex_world_with f v) = 0"
  by (simp_all add: ex_world_with_def readLog_def appendable_def)

section \<open>The claims\<close>

text \<open>
  \<^bold>\<open>C1.\<close> For every transaction that reaches the SOAP flow (the lookup of the submitted
  permit number returned an authority record), if the record's validity indicator is
  absent, or resolves to a time strictly before the time the expiry check reads, then
  the handler answers with status 422 and the expired body, whatever the submitted
  fields are. It writes the invalid log and broadcasts \<^verbatim>\<open>gate:invalid\<close>, nothing
  else: no mismatch is logged or broadcast. The authority record is in the response, in
  the broadcast payload and in the new entry of the invalid log (there as its JSON).
  This holds of the second variant and of the first, where the indicator is absent from
  every record (C10) and the SOAP flow is that of the requests not confirmed by the
  user. All log files can be appended to; the expiry check reads the clock after the
  write of the incoming log has read it once.
\<close>

theorem expired_whatever_the_fields:
  assumes "logs_ok w"
  shows "(get_prop client ''permitNumber'' = Inr permitNumber \<longrightarrow>
      soap_reply env permitNumber = Inr xml \<longrightarrow>
      parseSoapResponse_v2 env xml = Inr soapData \<longrightarrow>
      (read_prop soapData ''isPermitValidTill'' = JUndefined \<or>
       (\<exists>t. date_value env (read_prop soapData ''isPermitValidTill'') = Some t \<and>
            t < clock env (Suc (ticks w)))) \<longrightarrow>
      (\<exists>w' entry.
         validate_v2 env client w =
           (Some \<lparr>status = 422, body = JObj
              [(''success'', JBool False),
               (''type'', JStr ''PERMIT_EXPIRED''),
               (''message'', JStr ''Permit is expired''),
               (''soapData'', soapData)]\<rparr>, w') \<and>
         trace w' = trace w @
            [Wrote ''incoming.log.json'', SoapCall permitNumber, Wrote ''invalid.log.json'',
             Emit ''gate:invalid'' (JObj
               [(''client'', client), (''soapData'', soapData),
                (''reason'', JStr ''PERMIT_EXPIRED'')])] \<and>
         history w' ''invalid.log.json'' =
           map json_elem (history w ''invalid.log.json'') @ [entry] \<and>
         read_prop entry ''client'' = jsonify client \<and>
         read_prop entry ''soapData'' = jsonify soapData \<and>
         read_prop entry ''reason'' = JStr ''PERMIT_EXPIRED'' \<and>
         history w' ''mismatch.log.json'' = history w ''mismatch.log.json'')) \<and>
    (get_prop client ''confirmedByUser'' = Inr confirmed \<longrightarrow>
      confirmed \<noteq> JBool True \<longrightarrow>
      soap_reply env (read_prop client ''permitNumber'') = Inr xml' \<longrightarrow>
      parseSoapResponse_v1 env xml' = Inr soapData' \<longrightarrow>
      (\<exists>w' entry.
         validate_v1 env client w =
           (Some \<lparr>status = 422, body = JObj
              [(''success'', JBool False),
               (''type'', JStr ''INVALID_PERMIT''),
               (''message'', JStr ''Permit is expired''),
               (''soapData'', soapData')]\<rparr>, w') \<and>
         trace w' = trace w @
            [Wrote ''incoming.log.json'', SoapCall (read_prop client ''permitNumber''),
             Wrote ''invalid.log.json'',
             Emit ''gate:invalid'' (JObj
               [(''client'', client), (''soapData'', soapData'),
                (''reason'', JStr ''PERMIT_EXPIRED''),
                (''timestamp'', JStr (toISOString env (clock env (Suc (ticks w)))))])] \<and>
         history w' ''invalid.log.json'' =
           map json_elem (history w ''invalid.log.json'') @ [entry] \<and>
         read_prop entry ''client'' = jsonify client \<and>
         read_prop entry ''soapData'' = jsonify soapData' \<and>
         read_prop entry ''reason'' = JStr ''PERMIT_EXPIRED'' \<and>
         history w' ''mismatch.log.json'' = history w ''mismatch.log.json''))"
proof (intro conjI impI)
  assume a: "get_prop client ''permitNumber'' = Inr permitNumber"
    "soap_reply env permitNumber = Inr xml"
    "parseSoapResponse_v2 env xml = Inr soapData"
  assume "read_prop soapData ''isPermitValidTill'' = JUndefined \<or>
       (\<exists>t. date_value env (read_prop soapData ''isPermitValidTill'') = Some t \<and>
            t < clock env (Suc (ticks w)))"
  then have "fst (isPermitExpired env (read_prop soapData ''isPermitValidTill'')
          (w\<lparr>ticks := Suc (ticks w)\<rparr>)) = Inr True"
    by (auto simp: isPermitExpired_eq)
  then show "\<exists>w' entry.
         validate_v2 env client w =
           (Some \<lparr>status = 422, body = JObj
              [(''success'', JBool False),
               (''type'', JStr ''PERMIT_EXPIRED''),
               (''message'', JStr ''Permit is expired''),
               (''soapData'', soapData)]\<rparr>, w') \<and>
         trace w' = trace w @
            [Wrote ''incoming.log.json'', SoapCall permitNumber, Wrote ''invalid.log.json'',
             Emit ''gate:invalid'' (JObj
               [(''client'', client), (''soapData'', soapData),
                (''reason'', JStr ''PERMIT_EXPIRED'')])] \<and>
         history w' ''invalid.log.json'' =
           map json_elem (history w ''invalid.log.json'') @ [entry] \<and>
         read_prop entry ''client'' = jsonify client \<and>
         read_prop entry ''soapData'' = jsonify soapData \<and>
         read_prop entry ''reason'' = JStr ''PERMIT_EXPIRED'' \<and>
         history w' ''mismatch.log.json'' = history w ''mismatch.log.json''"
    by (rule run_expired_v2 [OF assms a])
next
  assume a: "get_prop client ''confirmedByUser'' = Inr confirmed"
    "confirmed \<noteq> JBool True"
    "soap_reply env (read_prop client ''permitNumber'') = Inr xml'"
    "parseSoapResponse_v1 env xml' = Inr soapData'"
  show "\<exists>w' entry.
         validate_v1 env client w =
           (Some \<lparr>status = 422, body = JObj
              [(''success'', JBool False),
               (''type'', JStr ''INVALID_PERMIT''),
               (''message'', JStr ''Permit is expired''),
               (''soapData'', soapData')]\<rparr>, w') \<and>
         trace w' = trace w @
            [Wrote ''incoming.log.json'', SoapCall (read_prop client ''permitNumber''),
             Wrote ''invalid.log.json'',
             Emit ''gate:invalid'' (JObj
               [(''client'', client), (''soapData'', soapData'),
                (''reason'', JStr ''PERMIT_EXPIRED''),
                (''timestamp'', JStr (toISOString env (clock env (Suc (ticks w)))))])] \<and>
         history w' ''invalid.log.json'' =
           map json_elem (history w ''invalid.log.json'') @ [entry] \<and>
         read_prop entry ''client'' = jsonify client \<and>
         read_prop entry ''soapData'' = jsonify soapData' \<and>
         read_prop entry ''reason'' = JStr ''PERMIT_EXPIRED'' \<and>
         history w' ''mismatch.log.json'' = history w ''mismatch.log.json''"
    by (rule run_expired_v1 [OF assms a])
qed

theorem expired_whatever_the_fields_witness:
  "logs_ok ex_world \<and>
   get_prop ex_client ''permitNumber'' = Inr (JStr ''PMA1001'') \<and>
   get_prop ex_client ''confirmedByUser'' = Inr JUndefined \<and>
   parseSoapResponse_v2 (ex_env (ex_details ''2001-01-01'') None) ''<reply/>'' =
     Inr (ex_record_v2 ''2001-01-01'') \<and>
   parseSoapResponse_v1 (ex_env (ex_details ''2001-01-01'') None) ''<reply/>'' = Inr ex_record_v1 \<and>
   date_value (ex_env (ex_details ''2001-01-01'') None)
     (read_prop (ex_record_v2 ''2001-01-01'') ''isPermitValidTill'') = Some 1 \<and>
   1 < clock (ex_env (ex_details ''2001-01-01'') None) (Suc (ticks ex_world)) \<and>
   fst (validate_v2 (ex_env (ex_details ''2001-01-01'') None) ex_client ex_world) =
     Some \<lparr>status = 422, body = JObj
          [(''success'', JBool False),
           (''type'', JStr ''PERMIT_EXPIRED''),
           (''message'', JStr ''Permit is expired''),
           (''soapData'', ex_record_v2 ''2001-01-01'')]\<rparr> \<and>
   fst (validate_v1 (ex_env (ex_details ''2001-01-01'') None) ex_client ex_world) =
     Some \<lparr>status = 422, body = JObj
          [(''success'', JBool False),
           (''type'', JStr ''INVALID_PERMIT''),
           (''message'', JStr ''Permit is expired''),
           (''soapData'', ex_record_v1)]\<rparr>"
proof -
  have d: "date_value (ex_env (ex_details ''2001-01-01'') None)
             (read_prop (ex_record_v2 ''2001-01-01'') ''isPermitValidTill'') = Some 1"
    and c: "1 < clock (ex_env (ex_details ''2001-01-01'') None) (Suc (ticks ex_world))"
    by (simp_all add: ex_validity ex_dates)
  have n: "JUndefined \<noteq> JBool True" by simp
  have r: "soap_reply (ex_env (ex_details ''2001-01-01'') None) (read_prop ex_client ''permitNumber'')
      = Inr ''<reply/>''"
    by (rule ex_soap_reply)
  from expired_whatever_the_fields [OF ex_logs_ok, of ex_client "JStr ''PMA1001''"
      "ex_env (ex_details ''2001-01-01'') None" "''<reply/>''" "ex_record_v2 ''2001-01-01''"
      JUndefined "''<reply/>''" ex_record_v1]
  show ?thesis
    using ex_logs_ok ex_client_props ex_soap_reply ex_parse_v2 ex_parse_v1 d c n r
    by auto
qed

text \<open>
  \<^bold>\<open>C2.\<close> Second variant, end to end, for every request whose lookup succeeded and whose
  permit the expiry check found not expired. When the mismatch list is computed, the
  handler answers 200 with the authority record, and logs, forwards and broadcasts a
  payload of source \<^verbatim>\<open>soap\<close>, exactly when the list is empty; otherwise it answers
  409 with exactly that list and logs and broadcasts it. When the computation of the list
  throws (the permit number or the gate type of the request is truthy and not a string),
  the handler logs the error and answers 500: nothing is reported matched or mismatched.
  So the answer is 200 exactly when the computed list is empty and 409 exactly when it
  is computed and not empty. First variant, whose handler never gets past its expiry
  check (C10): the same holds of the decision code itself, on every request and record.
  All log files can be appended to.
\<close>

theorem matched_iff_no_mismatch:
  assumes "logs_ok w"
  shows "(get_prop client ''permitNumber'' = Inr permitNumber \<longrightarrow>
      soap_reply env permitNumber = Inr xml \<longrightarrow>
      parseSoapResponse_v2 env xml = Inr soapData \<longrightarrow>
      fst (isPermitExpired env (read_prop soapData ''isPermitValidTill'')
             (w\<lparr>ticks := Suc (ticks w)\<rparr>)) = Inr False \<longrightarrow>
      (mismatches_v2 env client soapData = Inr ms \<longrightarrow>
        (\<exists>w' entry.
           validate_v2 env client w =
             (Some (if ms = []
                   then \<lparr>status = 200, body = JObj
                          [(''success'', JBool True), (''soapData'', soapData)]\<rparr>
                   else \<lparr>status = 409, body = JObj
                          [(''success'', JBool False), (''mismatches'', JArr ms),
                           (''soapData'', soapData)]\<rparr>),
              w') \<and>
           trace w' = trace w @ [Wrote ''incoming.log.json'', SoapCall permitNumber] @
             (if ms = []
              then [Wrote ''matched.log.json'', Wrote ''sent-to-api.log.json'',
                    Post (JObj [(''source'', JStr ''soap''), (''client'', client),
                                (''soapData'', soapData)])] @
                   (case target_reply env
                           (JObj [(''source'', JStr ''soap''), (''client'', client),
                                  (''soapData'', soapData)]) of
                      None \<Rightarrow> [] | Some msg \<Rightarrow> [Wrote ''sent-to-api-error.log.json'']) @
                   [Emit ''gate:matched''
                      (JObj [(''source'', JStr ''soap''), (''client'', client),
                             (''soapData'', soapData)])]
              else [Wrote ''mismatch.log.json'',
                    Emit ''gate:mismatch''
                      (JObj [(''client'', client), (''soapData'', soapData),
                             (''mismatches'', JArr ms)])]) \<and>
           history w' (if ms = [] then ''matched.log.json'' else ''mismatch.log.json'') =
             map json_elem (history w (if ms = [] then ''matched.log.json'' else ''mismatch.log.json''))
             @ [entry] \<and>
           read_prop entry ''soapData'' = jsonify soapData \<and>
           (if ms = [] then read_prop entry ''source'' = JStr ''soap''
            else read_prop entry ''mismatches'' = JArr (map json_elem ms)))) \<and>
      (mismatches_v2 env client soapData = Inl e \<longrightarrow>
        (\<exists>w'.
           validate_v2 env client w =
             (Some \<lparr>status = 500, body = JObj [(''error'', JStr (message e))]\<rparr>, w') \<and>
           trace w' = trace w @
             [Wrote ''incoming.log.json'', SoapCall permitNumber, Wrote ''error.log.json''])) \<and>
      (\<exists>r w'.
         validate_v2 env client w = (Some r, w') \<and>
         (status r = 200 \<longleftrightarrow> mismatches_v2 env client soapData = Inr []) \<and>
         (status r = 409 \<longleftrightarrow>
            (\<exists>ms'. mismatches_v2 env client soapData = Inr ms' \<and> ms' \<noteq> [])) \<and>
         (status r = 500 \<longleftrightarrow> (\<exists>e'. mismatches_v2 env client soapData = Inl e')))) \<and>
    (\<exists>w'.
       reconcile_v1 env client soapData w =
         (Inr (if mismatches_v1 client soapData = []
               then \<lparr>status = 200, body = JObj
                      [(''success'', JBool True), (''soapData'', soapData)]\<rparr>
               else \<lparr>status = 409, body = JObj
                      [(''success'', JBool False),
                       (''mismatches'', JArr (mismatches_v1 client soapData)),
                       (''soapData'', soapData)]\<rparr>),
          w') \<and>
       trace w' = trace w @
         (if mismatches_v1 client soapData = []
          then [Wrote ''matched.log.json'', Wrote ''sent-to-api.log.json'',
                Post (JObj [(''source'', JStr ''soap''), (''client'', client),
                            (''soapData'', soapData),
                            (''timestamp'', JStr (toISOString env (clock env (ticks w))))])] @
               (case target_reply env
                       (JObj [(''source'', JStr ''soap''), (''client'', client),
                              (''soapData'', soapData),
                              (''timestamp'', JStr (toISOString env (clock env (ticks w))))]) of
                  None \<Rightarrow> [] | Some msg \<Rightarrow> [Wrote ''sent-to-api-error.log.json'']) @
               [Emit ''gate:matched''
                  (JObj [(''source'', JStr ''soap''), (''client'', client),
                         (''soapData'', soapData),
                         (''timestamp'', JStr (toISOString env (clock env (ticks w))))])]
          else [Wrote ''mismatch.log.json'',
                Emit ''gate:mismatch''
                  (JObj [(''client'', client), (''soapData'', soapData),
                         (''mismatches'', JArr (mismatches_v1 client soapData))])]))"
proof -
  have total: "\<exists>r w'.
         validate_v2 env client w = (Some r, w') \<and>
         (status r = 200 \<longleftrightarrow> mismatches_v2 env client soapData = Inr []) \<and>
         (status r = 409 \<longleftrightarrow>
            (\<exists>ms'. mismatches_v2 env client soapData = Inr ms' \<and> ms' \<noteq> [])) \<and>
         (status r = 500 \<longleftrightarrow> (\<exists>e'. mismatches_v2 env client soapData = Inl e'))"
    if a: "get_prop client ''permitNumber'' = Inr permitNumber"
      "soap_reply env permitNumber = Inr xml"
      "parseSoapResponse_v2 env xml = Inr soapData"
      "fst (isPermitExpired env (read_prop soapData ''isPermitValidTill'')
             (w\<lparr>ticks := Suc (ticks w)\<rparr>)) = Inr False"
  proof (cases "mismatches_v2 env client soapData")
    case (Inl e')
    from run_throwing_v2 [OF assms a Inl] show ?thesis
      using Inl by auto
  next
    case (Inr ms')
    from run_reconcile_v2 [OF assms a Inr] show ?thesis
      using Inr by (cases "ms' = []") auto
  qed
  show ?thesis
    using run_reconcile_v2 [OF assms, of client permitNumber env xml soapData ms]
      run_throwing_v2 [OF assms, of client permitNumber env xml soapData e]
      reconcile_v1_run [OF assms, of env client soapData] total
    by blast
qed

theorem matched_iff_no_mismatch_witness:
  "logs_ok ex_world \<and>
   get_prop ex_client ''permitNumber'' = Inr (JStr ''PMA1001'') \<and>
   get_prop ex_numeric_client ''permitNumber'' = Inr (JNum 123) \<and>
   parseSoapResponse_v2 (ex_env (ex_details ''2099-12-31'') None) ''<reply/>'' =
     Inr (ex_record_v2 ''2099-12-31'') \<and>
   fst (isPermitExpired (ex_env (ex_details ''2099-12-31'') None)
          (read_prop (ex_record_v2 ''2099-12-31'') ''isPermitValidTill'')
          (ex_world\<lparr>ticks := Suc (ticks ex_world)\<rparr>)) = Inr False \<and>
   mismatches_v2 (ex_env (ex_details ''2099-12-31'') None) ex_client (ex_record_v2 ''2099-12-31'') =
     Inr [] \<and>
   mismatches_v2 (ex_env (ex_details ''2099-12-31'') None) ex_numeric_client
     (ex_record_v2 ''2099-12-31'') = Inl (TypeError ''substring is not a function'') \<and>
   fst (validate_v2 (ex_env (ex_details ''2099-12-31'') None) ex_client ex_world) =
     Some \<lparr>status = 200, body = JObj
       [(''success'', JBool True), (''soapData'', ex_record_v2 ''2099-12-31'')]\<rparr> \<and>
   fst (validate_v2 (ex_env (ex_details ''2099-12-31'') None) ex_numeric_client ex_world) =
     Some \<lparr>status = 500, body = JObj [(''error'', JStr ''substring is not a function'')]\<rparr>"
proof -
  from matched_iff_no_mismatch [OF ex_logs_ok, of ex_client "JStr ''PMA1001''"
      "ex_env (ex_details ''2099-12-31'') None" "''<reply/>''" "ex_record_v2 ''2099-12-31''" "[]"]
  have one: "fst (validate_v2 (ex_env (ex_details ''2099-12-31'') None) ex_client ex_world) =
     Some \<lparr>status = 200, body = JObj
       [(''success'', JBool True), (''soapData'', ex_record_v2 ''2099-12-31'')]\<rparr>"
    using ex_client_props(1) ex_soap_reply ex_parse_v2 ex_not_expired ex_no_mismatch
    by auto
  from matched_iff_no_mismatch [OF ex_logs_ok, of ex_numeric_client "JNum 123"
      "ex_env (ex_details ''2099-12-31'') None" "''<reply/>''" "ex_record_v2 ''2099-12-31''" _
      "TypeError ''substring is not a function''"]
  have two: "fst (validate_v2 (ex_env (ex_details ''2099-12-31'') None) ex_numeric_client ex_world) =
     Some \<lparr>status = 500, body = JObj [(''error'', JStr ''substring is not a function'')]\<rparr>"
    using ex_numeric_props ex_soap_reply ex_parse_v2 ex_not_expired
    by auto
  show ?thesis
    using one two ex_logs_ok ex_client_props(1) ex_numeric_props ex_parse_v2 ex_not_expired
      ex_no_mismatch
    by simp
qed

text \<open>
  \<^bold>\<open>C3.\<close> For every request in the field-reconciliation stage (second variant; the
  mismatch list is computed: the prefix and the upper-cased gate type are), the list has
  a \<^verbatim>\<open>containerNumber\<close> detail exactly when \<^verbatim>\<open>requireContainer\<close> is true for the
  request's gate type and permit prefix, both the submitted and the authoritative
  container number are present, and they differ. So the container number is compared
  only when the policy requires it and both sides have a value, and when the policy does
  not require the check, differing values produce no mismatch. In the first variant no
  request is in that stage: its handler answers 422 or 500, or 200 to a request the user
  confirmed, and never from its reconciliation code.
\<close>

theorem container_check_gated:
  "(substring_0_3 (or_empty (read_prop client ''permitNumber'')) = Inr prefix \<longrightarrow>
    toUpperCase env (or_empty (read_prop client ''gateType'')) = Inr gateType \<longrightarrow>
     (\<exists>ms. mismatches_v2 env client soapData = Inr ms \<and>
       filter (\<lambda>d. read_prop d ''field'' = JStr ''containerNumber'') ms =
         (if requireContainer gateType prefix \<and>
             truthy (read_prop client ''containerNumber'') \<and>
             truthy (read_prop soapData ''containerNumber'') \<and>
             \<not> strict_eq (read_prop client ''containerNumber'') (read_prop soapData ''containerNumber'')
          then [JObj [(''field'', JStr ''containerNumber''),
                      (''client'', read_prop client ''containerNumber''),
                      (''soap'', read_prop soapData ''containerNumber'')]]
          else []) \<and>
       (\<not> requireContainer gateType prefix \<longrightarrow>
          (\<forall>d \<in> set ms. read_prop d ''field'' \<noteq> JStr ''containerNumber'')))) \<and>
   (fst (validate_v1 env client w) = Some r \<longrightarrow>
      status r = 422 \<or> status r = 500 \<or>
      (status r = 200 \<and> get_prop client ''confirmedByUser'' = Inr (JBool True)))"
proof (rule conjI; intro impI)
  assume assms: "substring_0_3 (or_empty (read_prop client ''permitNumber'')) = Inr prefix"
    "toUpperCase env (or_empty (read_prop client ''gateType'')) = Inr gateType"
  show "\<exists>ms. mismatches_v2 env client soapData = Inr ms \<and>
       filter (\<lambda>d. read_prop d ''field'' = JStr ''containerNumber'') ms =
         (if requireContainer gateType prefix \<and>
             truthy (read_prop client ''containerNumber'') \<and>
             truthy (read_prop soapData ''containerNumber'') \<and>
             \<not> strict_eq (read_prop client ''containerNumber'') (read_prop soapData ''containerNumber'')
          then [JObj [(''field'', JStr ''containerNumber''),
                      (''client'', read_prop client ''containerNumber''),
                      (''soap'', read_prop soapData ''containerNumber'')]]
          else []) \<and>
       (\<not> requireContainer gateType prefix \<longrightarrow>
          (\<forall>d \<in> set ms. read_prop d ''field'' \<noteq> JStr ''containerNumber''))"
    using assms
    by (simp add: mismatches_v2_def bindE_def vehicle_check_def container_check_def)
next
  assume "fst (validate_v1 env client w) = Some r"
  then show "status r = 422 \<or> status r = 500 \<or>
        (status r = 200 \<and> get_prop client ''confirmedByUser'' = Inr (JBool True))"
    by (rule v1_never_reconciles)
qed

theorem container_check_gated_witness:
  "substring_0_3 (or_empty (read_prop ex_out_client ''permitNumber'')) = Inr ''PMD'' \<and>
   toUpperCase (ex_env (ex_details ''2099-12-31'') None)
     (or_empty (read_prop ex_out_client ''gateType'')) = Inr ''GATE_OUT'' \<and>
   requireContainer ''GATE_OUT'' ''PMD'' \<and>
   (\<exists>ms. mismatches_v2 (ex_env (ex_details ''2099-12-31'') None) ex_out_client ex_out_record =
        Inr ms \<and>
      filter (\<lambda>d. read_prop d ''field'' = JStr ''containerNumber'') ms =
        [JObj [(''field'', JStr ''containerNumber''), (''client'', JStr ''C1''),
               (''soap'', JStr ''C2'')]]) \<and>
   (\<exists>r. fst (validate_v1 (ex_env (ex_details ''2099-12-31'') None) ex_out_client ex_world) = Some r \<and>
      status r = 422)"
  using container_check_gated [where soapData = ex_out_record, THEN conjunct1, rule_format,
      OF ex_out_prefix ex_out_gate [of "ex_details ''2099-12-31''" None]]
    ex_out_prefix ex_out_gate ex_out_run_v1
  by (simp add: ex_out_props requireContainer_def strict_eq_def)

text \<open>
  \<^bold>\<open>C4.\<close> As stated the claim fails on the second variant, which does not compare the
  permit number: a request for permit \<^verbatim>\<open>PMA2002\<close> whose lookup returns the record of
  permit \<^verbatim>\<open>PMA1001\<close>, valid and with the same vehicle, has an empty mismatch list
  and is answered as matched.
\<close>

theorem permit_not_compared_v2_counterexample:
  "strict_eq
     (read_prop (JObj [(''permitNumber'', JStr ''PMA2002''), (''gateType'', JStr ''GATE_IN''),
                       (''vehicleNumber'', JStr ''MH12AB1234'')]) ''permitNumber'')
     (read_prop (ex_record_v2 ''2099-12-31'') ''permitNumber'') = False \<and>
   mismatches_v2 (ex_env (ex_details ''2099-12-31'') None)
     (JObj [(''permitNumber'', JStr ''PMA2002''), (''gateType'', JStr ''GATE_IN''),
            (''vehicleNumber'', JStr ''MH12AB1234'')])
     (ex_record_v2 ''2099-12-31'') = Inr [] \<and>
   fst (validate_v2 (ex_env (ex_details ''2099-12-31'') None)
     (JObj [(''permitNumber'', JStr ''PMA2002''), (''gateType'', JStr ''GATE_IN''),
            (''vehicleNumber'', JStr ''MH12AB1234'')]) ex_world) =
     Some \<lparr>status = 200, body = JObj
       [(''success'', JBool True), (''soapData'', ex_record_v2 ''2099-12-31'')]\<rparr>"
proof -
  let ?c = "JObj [(''permitNumber'', JStr ''PMA2002''), (''gateType'', JStr ''GATE_IN''),
            (''vehicleNumber'', JStr ''MH12AB1234'')]"
  have p: "get_prop ?c ''permitNumber'' = Inr (JStr ''PMA2002'')"
    by (simp add: get_prop_def nullish_def read_prop_def)
  have m: "mismatches_v2 (ex_env (ex_details ''2099-12-31'') None) ?c (ex_record_v2 ''2099-12-31'') =
      Inr []"
    by (simp add: mismatches_v2_def bindE_def substring_0_3_def toUpperCase_def or_empty_def
      read_prop_def ex_record_v2_def vehicle_check_def container_check_def strict_eq_def)
  have d: "strict_eq (read_prop ?c ''permitNumber'')
     (read_prop (ex_record_v2 ''2099-12-31'') ''permitNumber'') = False"
    by (simp add: strict_eq_def read_prop_def ex_record_v2_def)
  from run_reconcile_v2 [OF ex_logs_ok p
      ex_soap_reply [of "ex_details ''2099-12-31''" None]
      ex_parse_v2 [of "''2099-12-31''" None]
      ex_not_expired [of "ex_details ''2099-12-31''" None] m]
  show ?thesis
    using m d by auto
qed

text \<open>
  \<^bold>\<open>C4, amended.\<close> In the first variant's field reconciliation the submitted permit
  number is compared against the authoritative one, and the mismatch list has a
  \<^verbatim>\<open>permitNumber\<close> detail exactly when the two disagree, for every request and
  record. The second variant's field reconciliation does not compare the permit number:
  its mismatch list, whenever it is computed, has no \<^verbatim>\<open>permitNumber\<close> detail.
\<close>

theorem permit_compared_in_v1_only:
  "filter (\<lambda>d. read_prop d ''field'' = JStr ''permitNumber'') (mismatches_v1 client soapData) =
     (if strict_eq (read_prop client ''permitNumber'') (read_prop soapData ''permitNumber'')
      then []
      else [JObj [(''field'', JStr ''permitNumber''),
                  (''client'', read_prop client ''permitNumber''),
                  (''soap'', read_prop soapData ''permitNumber'')]]) \<and>
   (mismatches_v2 env client soapData = Inr ms \<longrightarrow>
      filter (\<lambda>d. read_prop d ''field'' = JStr ''permitNumber'') ms = [])"
  by (auto simp add: mismatches_v2_Inr mismatches_v1_def vehicle_check_def container_check_def)

theorem permit_compared_in_v1_only_witness:
  "(\<exists>ms. mismatches_v2 (ex_env JNull None) ex_out_client ex_record_v1 = Inr ms \<and>
      filter (\<lambda>d. read_prop d ''field'' = JStr ''permitNumber'') ms = []) \<and>
   filter (\<lambda>d. read_prop d ''field'' = JStr ''permitNumber'') (mismatches_v1 ex_out_client ex_record_v1) =
     [JObj [(''field'', JStr ''permitNumber''), (''client'', JStr ''PMD2002''),
            (''soap'', JStr ''PMA1001'')]] \<and>
   filter (\<lambda>d. read_prop d ''field'' = JStr ''permitNumber'')
     (mismatches_v1 ex_numeric_client (JObj [(''permitNumber'', JStr ''123'')])) =
     [JObj [(''field'', JStr ''permitNumber''), (''client'', JNum 123), (''soap'', JStr ''123'')]]"
proof -
  have m: "mismatches_v2 (ex_env JNull None) ex_out_client ex_record_v1 =
      Inr (vehicle_check ex_out_client ex_record_v1 @
           container_check (requireContainer ''GATE_OUT'' ''PMD'') ex_out_client ex_record_v1)"
    by (simp add: mismatches_v2_def ex_out_prefix ex_out_gate bindE_def)
  have r: "read_prop ex_record_v1 ''permitNumber'' = JStr ''PMA1001''"
    by (simp add: read_prop_def ex_record_v1_def)
  have n: "read_prop ex_numeric_client ''permitNumber'' = JNum 123"
    "read_prop (JObj [(''permitNumber'', JStr ''123'')]) ''permitNumber'' = JStr ''123''"
    by (simp_all add: read_prop_def ex_numeric_client_def)
  from permit_compared_in_v1_only [of ex_out_client ex_record_v1 "ex_env JNull None"
      "vehicle_check ex_out_client ex_record_v1 @
           container_check (requireContainer ''GATE_OUT'' ''PMD'') ex_out_client ex_record_v1"]
    permit_compared_in_v1_only [of ex_numeric_client "JObj [(''permitNumber'', JStr ''123'')]"]
  show ?thesis
    using m by (simp add: ex_out_props r n strict_eq_def)
qed

text \<open>
  \<^bold>\<open>C5.\<close> For every request in the field-reconciliation stage (second variant; the
  mismatch list is computed): if the submitted vehicle number is absent (or otherwise
  falsy), the list has one \<^verbatim>\<open>vehicleNumber\<close> detail, which reports its absence and
  compares nothing; if it is present, the list has a \<^verbatim>\<open>vehicleNumber\<close> detail, with
  the two values, exactly when the authority record also has a vehicle number and the
  two differ. In the first variant no request is in that stage: its handler answers 422
  or 500, or 200 to a request the user confirmed, and never from its reconciliation
  code.
\<close>

theorem vehicle_check_rules:
  "(mismatches_v2 env client soapData = Inr ms \<longrightarrow>
     filter (\<lambda>d. read_prop d ''field'' = JStr ''vehicleNumber'') ms =
       (if \<not> truthy (read_prop client ''vehicleNumber'')
        then [JObj [(''field'', JStr ''vehicleNumber''),
                    (''reason'', JStr ''Vehicle number missing from validate payload'')]]
        else if truthy (read_prop soapData ''vehicleNumber'') \<and>
                \<not> strict_eq (read_prop client ''vehicleNumber'') (read_prop soapData ''vehicleNumber'')
        then [JObj [(''field'', JStr ''vehicleNumber''),
                    (''client'', read_prop client ''vehicleNumber''),
                    (''soap'', read_prop soapData ''vehicleNumber'')]]
        else [])) \<and>
   (fst (validate_v1 env client w) = Some r \<longrightarrow>
      status r = 422 \<or> status r = 500 \<or>
      (status r = 200 \<and> get_prop client ''confirmedByUser'' = Inr (JBool True)))"
proof (rule conjI; intro impI)
  assume "mismatches_v2 env client soapData = Inr ms"
  then show "filter (\<lambda>d. read_prop d ''field'' = JStr ''vehicleNumber'') ms =
       (if \<not> truthy (read_prop client ''vehicleNumber'')
        then [JObj [(''field'', JStr ''vehicleNumber''),
                    (''reason'', JStr ''Vehicle number missing from validate payload'')]]
        else if truthy (read_prop soapData ''vehicleNumber'') \<and>
                \<not> strict_eq (read_prop client ''vehicleNumber'') (read_prop soapData ''vehicleNumber'')
        then [JObj [(''field'', JStr ''vehicleNumber''),
                    (''client'', read_prop client ''vehicleNumber''),
                    (''soap'', read_prop soapData ''vehicleNumber'')]]
        else [])"
    by (auto simp add: mismatches_v2_Inr vehicle_check_def container_check_def)
next
  assume "fst (validate_v1 env client w) = Some r"
  then show "status r = 422 \<or> status r = 500 \<or>
      (status r = 200 \<and> get_prop client ''confirmedByUser'' = Inr (JBool True))"
    by (rule v1_never_reconciles)
qed

theorem vehicle_check_rules_witness:
  "mismatches_v2 (ex_env (ex_details ''2099-12-31'') None)
     (JObj [(''permitNumber'', JStr ''PMA1001''), (''gateType'', JStr ''GATE_IN'')])
     (ex_record_v2 ''2099-12-31'') =
     Inr [JObj [(''field'', JStr ''vehicleNumber''),
                (''reason'', JStr ''Vehicle number missing from validate payload'')]] \<and>
   truthy (read_prop (JObj [(''permitNumber'', JStr ''PMA1001''), (''gateType'', JStr ''GATE_IN'')])
     ''vehicleNumber'') = False \<and>
   filter (\<lambda>d. read_prop d ''field'' = JStr ''vehicleNumber'')
     [JObj [(''field'', JStr ''vehicleNumber''),
            (''reason'', JStr ''Vehicle number missing from validate payload'')]] =
     [JObj [(''field'', JStr ''vehicleNumber''),
            (''reason'', JStr ''Vehicle number missing from validate payload'')]] \<and>
   (\<exists>r. fst (validate_v1 (ex_env (ex_details ''2099-12-31'') None)
          (JObj [(''permitNumber'', JStr ''PMA1001''), (''gateType'', JStr ''GATE_IN'')]) ex_world) =
        Some r \<and> status r = 422)"
proof -
  let ?c = "JObj [(''permitNumber'', JStr ''PMA1001''), (''gateType'', JStr ''GATE_IN'')]"
  have m: "mismatches_v2 (ex_env (ex_details ''2099-12-31'') None) ?c (ex_record_v2 ''2099-12-31'') =
     Inr [JObj [(''field'', JStr ''vehicleNumber''),
                (''reason'', JStr ''Vehicle number missing from validate payload'')]]"
    by (simp add: mismatches_v2_def bindE_def substring_0_3_def toUpperCase_def or_empty_def
      read_prop_def ex_record_v2_def vehicle_check_def container_check_def strict_eq_def
      requireContainer_def to_upper_char_def ex_env_def)
  have c: "get_prop ?c ''confirmedByUser'' = Inr JUndefined"
    by (simp add: get_prop_def nullish_def read_prop_def)
  have n: "JUndefined \<noteq> JBool True" by simp
  from run_expired_v1 [OF ex_logs_ok c n
      ex_soap_reply [of "ex_details ''2099-12-31''" None]
      ex_parse_v1 [of "''2099-12-31''" None]]
  have run: "\<exists>r. fst (validate_v1 (ex_env (ex_details ''2099-12-31'') None) ?c ex_world) = Some r \<and>
      status r = 422"
    by auto
  from vehicle_check_rules [THEN conjunct1, rule_format, OF m]
  show ?thesis using m run by (simp add: read_prop_def)
qed

text \<open>
  \<^bold>\<open>C6.\<close> First variant (the one with the manual override). For every request whose
  \<^verbatim>\<open>confirmedByUser\<close> is \<^verbatim>\<open>true\<close>: the handler writes the matched log with a
  payload of source \<^verbatim>\<open>manual\<close> and no authority record, forwards that payload,
  broadcasts it as \<^verbatim>\<open>gate:matched\<close> and answers with the success response, in this
  order and whether or not the target API accepts the payload; the authority is never
  called (no \<open>SoapCall\<close> in the trace). All log files can be appended to.
\<close>

theorem manual_confirm_skips_authority:
  assumes "logs_ok w"
    and "get_prop client ''confirmedByUser'' = Inr (JBool True)"
  shows "\<exists>w' entry.
     validate_v1 env client w =
       (Some \<lparr>status = 200, body = JObj
          [(''success'', JBool True),
           (''message'', JStr ''Manually confirmed & sent'')]\<rparr>, w') \<and>
     trace w' = trace w @
        [Wrote ''incoming.log.json'', Wrote ''matched.log.json'', Wrote ''sent-to-api.log.json'',
         Post (JObj [(''source'', JStr ''manual''), (''client'', client), (''soapData'', JNull),
                     (''timestamp'', JStr (toISOString env (clock env (Suc (ticks w)))))])] @
        (case target_reply env
                (JObj [(''source'', JStr ''manual''), (''client'', client), (''soapData'', JNull),
                       (''timestamp'', JStr (toISOString env (clock env (Suc (ticks w)))))]) of
           None \<Rightarrow> [] | Some msg \<Rightarrow> [Wrote ''sent-to-api-error.log.json'']) @
        [Emit ''gate:matched''
           (JObj [(''source'', JStr ''manual''), (''client'', client), (''soapData'', JNull),
                  (''timestamp'', JStr (toISOString env (clock env (Suc (ticks w)))))])] \<and>
     history w' ''matched.log.json'' = map json_elem (history w ''matched.log.json'') @ [entry] \<and>
     read_prop entry ''source'' = JStr ''manual'' \<and>
     read_prop entry ''client'' = jsonify client \<and>
     read_prop entry ''soapData'' = JNull"
proof -
  from assms(2) have c: "client \<noteq> JUndefined"
    by (auto simp: get_prop_Inr nullish_def)
  have run: "try_v1 env client w =
      manual_v1 env client (logged env ''incoming.log.json'' (JObj [(''body'', client)]) w)"
    using assms
    by (simp add: logs_ok_iff try_v1_def handler_defs writeLog_appendable)
  show ?thesis
    using assms(1) c
    by (auto simp add: validate_v1_def run logs_ok_iff handler_defs manual_v1_def writeLog_appendable
        sendToTargetAPI_appendable log_entry_def read_prop_def jsonify_undefined_iff
        split: option.splits)
qed

theorem manual_confirm_skips_authority_witness:
  "logs_ok ex_world \<and>
   get_prop (JObj [(''permitNumber'', JStr ''PMA1001''), (''confirmedByUser'', JBool True)])
     ''confirmedByUser'' = Inr (JBool True) \<and>
   fst (validate_v1 (ex_env JNull (Some ''timeout of 5000ms exceeded''))
          (JObj [(''permitNumber'', JStr ''PMA1001''), (''confirmedByUser'', JBool True)]) ex_world) =
     Some \<lparr>status = 200, body = JObj
          [(''success'', JBool True),
           (''message'', JStr ''Manually confirmed & sent'')]\<rparr>"
proof -
  have c: "get_prop (JObj [(''permitNumber'', JStr ''PMA1001''), (''confirmedByUser'', JBool True)])
     ''confirmedByUser'' = Inr (JBool True)"
    by (simp add: get_prop_def nullish_def read_prop_def)
  from manual_confirm_skips_authority [OF ex_logs_ok c,
      of "ex_env JNull (Some ''timeout of 5000ms exceeded'')"]
  show ?thesis using ex_logs_ok c by auto
qed

text \<open>
  \<^bold>\<open>C7.\<close> As stated the claim fails on the first variant: the body of its expired
  response has the type \<^verbatim>\<open>INVALID_PERMIT\<close>.
\<close>

theorem expired_type_v1_counterexample:
  "fst (validate_v1 (ex_env (ex_details ''2099-12-31'') None) ex_client ex_world) =
     Some \<lparr>status = 422, body = JObj
          [(''success'', JBool False),
           (''type'', JStr ''INVALID_PERMIT''),
           (''message'', JStr ''Permit is expired''),
           (''soapData'', ex_record_v1)]\<rparr> \<and>
   read_prop (JObj
          [(''success'', JBool False),
           (''type'', JStr ''INVALID_PERMIT''),
           (''message'', JStr ''Permit is expired''),
           (''soapData'', ex_record_v1)]) ''type'' \<noteq> JStr ''PERMIT_EXPIRED''"
proof -
  have n: "JUndefined \<noteq> JBool True" by simp
  from run_expired_v1 [OF ex_logs_ok ex_client_props(2) n, of "ex_env (ex_details ''2099-12-31'') None"
      "''<reply/>''" ex_record_v1]
  show ?thesis
    by (auto simp add: ex_soap_reply ex_parse_v1 read_prop_def)
qed

text \<open>
  \<^bold>\<open>C7, amended.\<close> For every expired-permit outcome the response has status 422 and a
  body that includes the authority record under \<^verbatim>\<open>soapData\<close>; the type of the body is
  \<^verbatim>\<open>PERMIT_EXPIRED\<close> in the second variant and \<^verbatim>\<open>INVALID_PERMIT\<close> in the first.
  The outcome is expired when the lookup returned a record and the expiry check says
  expired, which in the first variant it always does. All log files can be appended to.
\<close>

theorem expired_response:
  assumes "logs_ok w"
  shows "(get_prop client ''permitNumber'' = Inr permitNumber \<longrightarrow>
      soap_reply env permitNumber = Inr xml \<longrightarrow>
      parseSoapResponse_v2 env xml = Inr soapData \<longrightarrow>
      fst (isPermitExpired env (read_prop soapData ''isPermitValidTill'')
             (w\<lparr>ticks := Suc (ticks w)\<rparr>)) = Inr True \<longrightarrow>
      (\<exists>r w'. validate_v2 env client w = (Some r, w') \<and> status r = 422 \<and>
         read_prop (body r) ''type'' = JStr ''PERMIT_EXPIRED'' \<and>
         read_prop (body r) ''soapData'' = soapData)) \<and>
    (get_prop client ''confirmedByUser'' = Inr confirmed \<longrightarrow>
      confirmed \<noteq> JBool True \<longrightarrow>
      soap_reply env (read_prop client ''permitNumber'') = Inr xml' \<longrightarrow>
      parseSoapResponse_v1 env xml' = Inr soapData' \<longrightarrow>
      (\<exists>r w'. validate_v1 env client w = (Some r, w') \<and> status r = 422 \<and>
         read_prop (body r) ''type'' = JStr ''INVALID_PERMIT'' \<and>
         read_prop (body r) ''soapData'' = soapData'))"
proof (intro conjI impI)
  assume a: "get_prop client ''permitNumber'' = Inr permitNumber"
    "soap_reply env permitNumber = Inr xml"
    "parseSoapResponse_v2 env xml = Inr soapData"
    "fst (isPermitExpired env (read_prop soapData ''isPermitValidTill'')
             (w\<lparr>ticks := Suc (ticks w)\<rparr>)) = Inr True"
  from run_expired_v2 [OF assms a]
  show "\<exists>r w'. validate_v2 env client w = (Some r, w') \<and> status r = 422 \<and>
         read_prop (body r) ''type'' = JStr ''PERMIT_EXPIRED'' \<and>
         read_prop (body r) ''soapData'' = soapData"
    by (auto simp: read_prop_def)
next
  assume a: "get_prop client ''confirmedByUser'' = Inr confirmed"
    "confirmed \<noteq> JBool True"
    "soap_reply env (read_prop client ''permitNumber'') = Inr xml'"
    "parseSoapResponse_v1 env xml' = Inr soapData'"
  from run_expired_v1 [OF assms a]
  show "\<exists>r w'. validate_v1 env client w = (Some r, w') \<and> status r = 422 \<and>
         read_prop (body r) ''type'' = JStr ''INVALID_PERMIT'' \<and>
         read_prop (body r) ''soapData'' = soapData'"
    by (auto simp: read_prop_def)
qed

theorem expired_response_witness:
  "logs_ok ex_world \<and>
   get_prop ex_client ''permitNumber'' = Inr (JStr ''PMA1001'') \<and>
   get_prop ex_client ''confirmedByUser'' = Inr JUndefined \<and>
   parseSoapResponse_v2 (ex_env (ex_details ''2001-01-01'') None) ''<reply/>'' =
     Inr (ex_record_v2 ''2001-01-01'') \<and>
   parseSoapResponse_v1 (ex_env (ex_details ''2001-01-01'') None) ''<reply/>'' = Inr ex_record_v1 \<and>
   fst (isPermitExpired (ex_env (ex_details ''2001-01-01'') None)
          (read_prop (ex_record_v2 ''2001-01-01'') ''isPermitValidTill'')
          (ex_world\<lparr>ticks := Suc (ticks ex_world)\<rparr>)) = Inr True \<and>
   (\<exists>r w'. validate_v2 (ex_env (ex_details ''2001-01-01'') None) ex_client ex_world = (Some r, w') \<and>
      status r = 422 \<and> read_prop (body r) ''type'' = JStr ''PERMIT_EXPIRED'' \<and>
      read_prop (body r) ''soapData'' = ex_record_v2 ''2001-01-01'') \<and>
   (\<exists>r w'. validate_v1 (ex_env (ex_details ''2001-01-01'') None) ex_client ex_world = (Some r, w') \<and>
      status r = 422 \<and> read_prop (body r) ''type'' = JStr ''INVALID_PERMIT'' \<and>
      read_prop (body r) ''soapData'' = ex_record_v1)"
proof -
  have n: "JUndefined \<noteq> JBool True" by simp
  have r: "soap_reply (ex_env (ex_details ''2001-01-01'') None) (read_prop ex_client ''permitNumber'')
      = Inr ''<reply/>''"
    by (rule ex_soap_reply)
  from expired_response [OF ex_logs_ok, of ex_client "JStr ''PMA1001''"
      "ex_env (ex_details ''2001-01-01'') None" "''<reply/>''" "ex_record_v2 ''2001-01-01''"
      JUndefined "''<reply/>''" ex_record_v1]
  show ?thesis
    using ex_logs_ok ex_client_props ex_soap_reply ex_parse_v2 ex_parse_v1 ex_expired n r
    by simp
qed

text \<open>
  \<^bold>\<open>C8.\<close> As stated the claim fails where one of the two log writes of
  \<^verbatim>\<open>sendToTargetAPI\<close> throws; neither is caught (line 71 stands before the
  \<^verbatim>\<open>try\<close>, line 78 inside the \<^verbatim>\<open>catch\<close>). With a forward log that holds
  \<^verbatim>\<open>{}\<close> the call throws though the target API accepts; with a forward-error log
  that holds \<^verbatim>\<open>{}\<close> it throws on a delivery failure; and the manual confirm flow
  around it then answers 500.
\<close>

theorem forward_log_counterexample:
  "fst (sendToTargetAPI (ex_env JNull None) (JObj [(''source'', JStr ''manual'')])
         (ex_world_with ''sent-to-api.log.json'' (JObj []))) =
     Inl (TypeError ''arr.push is not a function'') \<and>
   fst (sendToTargetAPI (ex_env JNull (Some ''timeout of 5000ms exceeded''))
         (JObj [(''source'', JStr ''manual'')])
         (ex_world_with ''sent-to-api-error.log.json'' (JObj []))) =
     Inl (TypeError ''arr.push is not a function'') \<and>
   fst (validate_v1 (ex_env JNull None) (JObj [(''confirmedByUser'', JBool True)])
         (ex_world_with ''sent-to-api.log.json'' (JObj []))) =
     Some \<lparr>status = 500, body = JObj [(''error'', JStr ''arr.push is not a function'')]\<rparr>"
proof (intro conjI)
  show "fst (sendToTargetAPI (ex_env JNull None) (JObj [(''source'', JStr ''manual'')])
         (ex_world_with ''sent-to-api.log.json'' (JObj []))) =
     Inl (TypeError ''arr.push is not a function'')"
    by (rule sendToTargetAPI_on_non_array) (simp add: ex_world_with_props)
next
  have t: "target_reply (ex_env JNull (Some ''timeout of 5000ms exceeded''))
      (JObj [(''source'', JStr ''manual'')]) = Some ''timeout of 5000ms exceeded''"
    by (simp add: ex_env_def)
  have "fst (writeLog (ex_env JNull (Some ''timeout of 5000ms exceeded'')) ''sent-to-api-error.log.json''
        (JObj [(''error'', JStr ''timeout of 5000ms exceeded''),
               (''payload'', JObj [(''source'', JStr ''manual'')])])
        ((logged (ex_env JNull (Some ''timeout of 5000ms exceeded'')) ''sent-to-api.log.json''
            (JObj [(''source'', JStr ''manual'')])
            (ex_world_with ''sent-to-api-error.log.json'' (JObj [])))
          \<lparr>trace := [Wrote ''sent-to-api.log.json'', Post (JObj [(''source'', JStr ''manual'')])]\<rparr>)) =
      Inl (TypeError ''arr.push is not a function'')"
    by (rule writeLog_on_non_array [where kvs = "[]"])
       (simp add: readLog_logged ex_world_with_props)
  then show "fst (sendToTargetAPI (ex_env JNull (Some ''timeout of 5000ms exceeded''))
         (JObj [(''source'', JStr ''manual'')])
         (ex_world_with ''sent-to-api-error.log.json'' (JObj []))) =
     Inl (TypeError ''arr.push is not a function'')"
    by (simp add: sendToTargetAPI_def bind_def writeLog_appendable ex_world_with_props
        post_target_def t split: prod.splits sum.splits)
next
  let ?w = "ex_world_with ''sent-to-api.log.json'' (JObj [])"
  let ?E = "ex_env JNull None"
  let ?p = "JObj [(''source'', JStr ''manual''),
                  (''client'', JObj [(''confirmedByUser'', JBool True)]),
                  (''soapData'', JNull),
                  (''timestamp'', JStr (toISOString ?E (clock ?E (Suc 0))))]"
  let ?w2 = "logged ?E ''matched.log.json'' ?p
      ((logged ?E ''incoming.log.json''
          (JObj [(''body'', JObj [(''confirmedByUser'', JBool True)])]) ?w)
        \<lparr>ticks := Suc (Suc 0)\<rparr>)"
  have "readLog ?w2 ''sent-to-api.log.json'' = JObj []"
    by (simp add: readLog_logged ex_world_with_props)
  from sendToTargetAPI_on_non_array [OF this, of ?E ?p]
  obtain w3 where s: "sendToTargetAPI ?E ?p ?w2 = (Inl (TypeError ''arr.push is not a function''), w3)"
    by (cases "sendToTargetAPI ?E ?p ?w2") auto
  have "appendable ?w2 ''error.log.json''"
    by (simp add: ex_world_with_props)
  with sendToTargetAPI_other [OF s, of "''error.log.json''"]
  have a3: "appendable w3 ''error.log.json''"
    by (simp add: appendable_def)
  show "fst (validate_v1 ?E (JObj [(''confirmedByUser'', JBool True)]) ?w) =
     Some \<lparr>status = 500, body = JObj [(''error'', JStr ''arr.push is not a function'')]\<rparr>"
    using s a3
    by (simp add: validate_v1_def catch_500_def try_v1_def manual_v1_def bind_def lift_def
        new_Date_def Let_def writeLog_appendable ex_world_with_props get_prop_def nullish_def
        read_prop_def)
qed

text \<open>
  \<^bold>\<open>C8, amended.\<close> \<^verbatim>\<open>sendToTargetAPI\<close> never propagates a delivery failure to its
  caller. For every payload it returns normally exactly when its own log writes do not
  throw: the forward log can be appended to and, if the delivery fails, so can the
  forward-error log. With both logs appendable: when the target API accepts, it has
  logged the payload and posted it; when the delivery fails with a message (timeout,
  connection error, non-success response), it has moreover appended to the forward-error
  log an entry with that message under \<^verbatim>\<open>error\<close> and the payload (as its JSON) under
  \<^verbatim>\<open>payload\<close>; and the matched decision of a transaction answers with its success
  response whatever the target API does (there all log files can be appended to).
\<close>

theorem forward_swallows_delivery_failure:
  "((\<exists>w'. sendToTargetAPI env payload w = (Inr (), w')) \<longleftrightarrow>
      appendable w ''sent-to-api.log.json'' \<and>
      (target_reply env payload = None \<or> appendable w ''sent-to-api-error.log.json'')) \<and>
   (appendable w ''sent-to-api.log.json'' \<longrightarrow> appendable w ''sent-to-api-error.log.json'' \<longrightarrow>
     (\<exists>w'. sendToTargetAPI env payload w = (Inr (), w') \<and>
       (case target_reply env payload of
          None \<Rightarrow>
            trace w' = trace w @ [Wrote ''sent-to-api.log.json'', Post payload] \<and>
            history w' ''sent-to-api-error.log.json'' = history w ''sent-to-api-error.log.json''
        | Some msg \<Rightarrow>
            trace w' = trace w @
              [Wrote ''sent-to-api.log.json'', Post payload, Wrote ''sent-to-api-error.log.json''] \<and>
            (\<exists>entry.
               history w' ''sent-to-api-error.log.json'' =
                 map json_elem (history w ''sent-to-api-error.log.json'') @ [entry] \<and>
               read_prop entry ''error'' = JStr msg \<and>
               read_prop entry ''payload'' = jsonify payload)))) \<and>
   (logs_ok w \<longrightarrow> client \<noteq> JUndefined \<longrightarrow> soapData \<noteq> JUndefined \<longrightarrow>
    mismatches_v2 env client soapData = Inr [] \<longrightarrow>
      (\<exists>w'. reconcile_v2 env client soapData w =
         (Inr \<lparr>status = 200, body = JObj
            [(''success'', JBool True), (''soapData'', soapData)]\<rparr>, w')))"
proof (intro conjI impI)
  show "(\<exists>w'. sendToTargetAPI env payload w = (Inr (), w')) \<longleftrightarrow>
      appendable w ''sent-to-api.log.json'' \<and>
      (target_reply env payload = None \<or> appendable w ''sent-to-api-error.log.json'')"
    by (rule sendToTargetAPI_returns_iff)
next
  assume "appendable w ''sent-to-api.log.json''" "appendable w ''sent-to-api-error.log.json''"
  then show "\<exists>w'. sendToTargetAPI env payload w = (Inr (), w') \<and>
       (case target_reply env payload of
          None \<Rightarrow>
            trace w' = trace w @ [Wrote ''sent-to-api.log.json'', Post payload] \<and>
            history w' ''sent-to-api-error.log.json'' = history w ''sent-to-api-error.log.json''
        | Some msg \<Rightarrow>
            trace w' = trace w @
              [Wrote ''sent-to-api.log.json'', Post payload, Wrote ''sent-to-api-error.log.json''] \<and>
            (\<exists>entry.
               history w' ''sent-to-api-error.log.json'' =
                 map json_elem (history w ''sent-to-api-error.log.json'') @ [entry] \<and>
               read_prop entry ''error'' = JStr msg \<and>
               read_prop entry ''payload'' = jsonify payload))"
    by (cases "payload = JUndefined")
       (auto simp add: sendToTargetAPI_appendable forwarded_def Let_def log_entry_def read_prop_def
          jsonify_undefined_iff split: option.splits)
next
  assume "logs_ok w" "client \<noteq> JUndefined" "soapData \<noteq> JUndefined"
    "mismatches_v2 env client soapData = Inr []"
  from reconcile_v2_run [OF this]
  show "\<exists>w'. reconcile_v2 env client soapData w =
          (Inr \<lparr>status = 200, body = JObj
             [(''success'', JBool True), (''soapData'', soapData)]\<rparr>, w')"
    by auto
qed

theorem forward_swallows_delivery_failure_witness:
  "appendable ex_world ''sent-to-api.log.json'' \<and>
   appendable ex_world ''sent-to-api-error.log.json'' \<and>
   logs_ok ex_world \<and>
   mismatches_v2 (ex_env JNull (Some ''timeout of 5000ms exceeded'')) ex_client
     (ex_record_v2 ''2099-12-31'') = Inr [] \<and>
   target_reply (ex_env JNull (Some ''timeout of 5000ms exceeded'')) (JObj [(''source'', JStr ''soap'')]) =
     Some ''timeout of 5000ms exceeded'' \<and>
   fst (sendToTargetAPI (ex_env JNull (Some ''timeout of 5000ms exceeded''))
          (JObj [(''source'', JStr ''soap'')]) ex_world) = Inr () \<and>
   (\<exists>w'. reconcile_v2 (ex_env JNull (Some ''timeout of 5000ms exceeded''))
            ex_client (ex_record_v2 ''2099-12-31'') ex_world =
          (Inr \<lparr>status = 200, body = JObj
             [(''success'', JBool True), (''soapData'', ex_record_v2 ''2099-12-31'')]\<rparr>, w'))"
proof -
  have t: "target_reply (ex_env JNull (Some ''timeout of 5000ms exceeded''))
      (JObj [(''source'', JStr ''soap'')]) = Some ''timeout of 5000ms exceeded''"
    by (simp add: ex_env_def)
  have c: "ex_client \<noteq> JUndefined" "ex_record_v2 ''2099-12-31'' \<noteq> JUndefined"
    by (simp_all add: ex_client_def ex_record_v2_def)
  from forward_swallows_delivery_failure [of "ex_env JNull (Some ''timeout of 5000ms exceeded'')"
         "JObj [(''source'', JStr ''soap'')]" ex_world ex_client "ex_record_v2 ''2099-12-31''"]
  show ?thesis
    using ex_appendable ex_logs_ok ex_no_mismatch t c by auto
qed


text \<open>
  \<^bold>\<open>C9.\<close> As stated the claim fails where the appended data has a \<^verbatim>\<open>timestamp\<close>
  property of its own: the spread of line 51 (and 314) writes the data's properties over
  the time of the append. Here one append at clock reading \<^verbatim>\<open>T1000\<close> of a request
  body with its own \<^verbatim>\<open>timestamp\<close> leaves one entry, which carries the body's value.
\<close>

theorem own_timestamp_counterexample:
  "readLog ex_world ''incoming.log.json'' = JArr [] \<and>
   fst (writeLog_all (ex_env JNull None) ''incoming.log.json''
          [JObj [(''timestamp'', JStr ''1999-01-01''), (''permitNumber'', JStr ''PMA1001'')]]
          ex_world) = Inr () \<and>
   readLog (snd (writeLog_all (ex_env JNull None) ''incoming.log.json''
          [JObj [(''timestamp'', JStr ''1999-01-01''), (''permitNumber'', JStr ''PMA1001'')]]
          ex_world)) ''incoming.log.json'' =
     JArr [JObj [(''timestamp'', JStr ''1999-01-01''), (''permitNumber'', JStr ''PMA1001'')]] \<and>
   toISOString (ex_env JNull None) (clock (ex_env JNull None) (ticks ex_world)) = ''T1000''"
  by (simp add: bind_def return_def writeLog_appendable ex_appendable readLog_logged log_entry_def
      history_def, simp add: readLog_def ex_world_def ex_env_def digit_def)

text \<open>
  \<^bold>\<open>C9, amended.\<close> For every category whose history is empty, and every sequence of N
  appends to it with nothing else in between: every append succeeds, and a query then
  returns exactly N entries, in the order of the appends; the i-th entry is the JSON of
  the i-th data under the time of its append, and it carries that time as its
  \<^verbatim>\<open>timestamp\<close> when the data has no \<^verbatim>\<open>timestamp\<close> property of its own (a
  \<^verbatim>\<open>timestamp\<close> of the data's own is written over it).
\<close>

theorem appends_then_query:
  assumes "readLog w file = JArr []"
  shows "\<exists>w' entries.
     writeLog_all env file ds w = (Inr (), w') \<and>
     readLog w' file = JArr entries \<and>
     length entries = length ds \<and>
     (\<forall>i < length ds.
        entries ! i = jsonify (log_entry env (clock env (ticks w + i)) (ds ! i)) \<and>
        (''timestamp'' \<notin> fst ` set (own_entries (ds ! i)) \<longrightarrow>
           read_prop (entries ! i) ''timestamp'' = JStr (toISOString env (clock env (ticks w + i)))))"
proof -
  from assms have a: "appendable w file" and h: "history w file = []"
    by (simp_all add: empty_history)
  from h have n: "\<forall>x \<in> set (history w file). json_elem x = x" by simp
  from writeLog_all_history [OF a n, of env ds] obtain w' where
    run: "writeLog_all env file ds w = (Inr (), w')" and ok: "appendable w' file"
    and h': "history w' file =
        map (\<lambda>i. jsonify (log_entry env (clock env (ticks w + i)) (ds ! i))) [0..<length ds]"
    by (auto simp: h)
  show ?thesis
    using run readLog_history [OF ok] h'
    by (auto simp: timestamp_kept)
qed

theorem appends_then_query_witness:
  "readLog ex_world ''matched.log.json'' = JArr [] \<and>
   (\<exists>w' entries.
      writeLog_all (ex_env JNull None) ''matched.log.json'' [ex_client, ex_out_client] ex_world =
        (Inr (), w') \<and>
      readLog w' ''matched.log.json'' = JArr entries \<and>
      length entries = 2 \<and>
      read_prop (entries ! 0) ''timestamp'' = JStr ''T1000'' \<and>
      read_prop (entries ! 1) ''timestamp'' = JStr ''T1001'')"
proof -
  have e: "readLog ex_world ''matched.log.json'' = JArr []"
    by (simp add: readLog_def ex_world_def)
  have k: "''timestamp'' \<notin> fst ` set (own_entries ([ex_client, ex_out_client] ! 0))"
      "''timestamp'' \<notin> fst ` set (own_entries ([ex_client, ex_out_client] ! 1))"
    by (simp_all add: ex_client_def ex_out_client_def)
  have l: "0 < length [ex_client, ex_out_client]" "1 < length [ex_client, ex_out_client]"
    by simp_all
  have t: "toISOString (ex_env JNull None) (clock (ex_env JNull None) (ticks ex_world + 0)) = ''T1000''"
      "toISOString (ex_env JNull None) (clock (ex_env JNull None) (ticks ex_world + 1)) = ''T1001''"
    by (simp_all add: ex_env_def ex_world_def digit_def)
  from appends_then_query [OF e, of "ex_env JNull None" "[ex_client, ex_out_client]"]
  obtain w' entries where
    run: "writeLog_all (ex_env JNull None) ''matched.log.json'' [ex_client, ex_out_client] ex_world =
        (Inr (), w')"
    and r: "readLog w' ''matched.log.json'' = JArr entries"
    and len: "length entries = length [ex_client, ex_out_client]"
    and each: "\<forall>i < length [ex_client, ex_out_client].
        entries ! i = jsonify (log_entry (ex_env JNull None)
           (clock (ex_env JNull None) (ticks ex_world + i)) ([ex_client, ex_out_client] ! i)) \<and>
        (''timestamp'' \<notin> fst ` set (own_entries ([ex_client, ex_out_client] ! i)) \<longrightarrow>
           read_prop (entries ! i) ''timestamp'' =
             JStr (toISOString (ex_env JNull None) (clock (ex_env JNull None) (ticks ex_world + i))))"
    by blast
  from each [rule_format, OF l(1), THEN conjunct2, rule_format, OF k(1)]
  have e0: "read_prop (entries ! 0) ''timestamp'' = JStr ''T1000''"
    by (simp only: t)
  from each [rule_format, OF l(2), THEN conjunct2, rule_format, OF k(2)]
  have e1: "read_prop (entries ! 1) ''timestamp'' = JStr ''T1001''"
    by (simp only: t)
  from len have "length entries = 2" by simp
  with e run r e0 e1 show ?thesis by blast
qed

text \<open>
  \<^bold>\<open>C10.\<close> First variant. The record \<^verbatim>\<open>parseSoapResponse\<close> returns has the permit,
  container, vehicle, line code and flag properties and no \<^verbatim>\<open>isPermitValidTill\<close>;
  the expiry check, which reads that property, says expired; so every request that
  takes the SOAP flow and whose lookup returns a record gets the expired outcome (status
  422, an entry in the invalid log, \<^verbatim>\<open>gate:invalid\<close>), whatever the authority
  replied and whatever the clock and the dates are. All log files can be appended to.
\<close>

theorem v1_always_expired:
  assumes "logs_ok w"
    and "get_prop client ''confirmedByUser'' = Inr confirmed"
    and "confirmed \<noteq> JBool True"
    and "soap_reply env (read_prop client ''permitNumber'') = Inr xml"
    and "parseSoapResponse_v1 env xml = Inr soapData"
  shows "map fst (own_entries soapData) =
       [''permitNumber'', ''containerNumber'', ''containerSize'', ''containerType'',
        ''containerStatus'', ''vehicleNumber'', ''slineCode'', ''lddMtFlag''] \<and>
     read_prop soapData ''isPermitValidTill'' = JUndefined \<and>
     (\<forall>w1. isPermitExpired env (read_prop soapData ''isPermitValidTill'') w1 = (Inr True, w1)) \<and>
     (\<exists>r w'. validate_v1 env client w = (Some r, w') \<and> status r = 422 \<and>
        trace w' = trace w @
          [Wrote ''incoming.log.json'', SoapCall (read_prop client ''permitNumber''),
           Wrote ''invalid.log.json'',
           Emit ''gate:invalid'' (JObj
             [(''client'', client), (''soapData'', soapData), (''reason'', JStr ''PERMIT_EXPIRED''),
              (''timestamp'', JStr (toISOString env (clock env (Suc (ticks w)))))])])"
proof -
  from assms(5) have keys: "map fst (own_entries soapData) =
       [''permitNumber'', ''containerNumber'', ''containerSize'', ''containerType'',
        ''containerStatus'', ''vehicleNumber'', ''slineCode'', ''lddMtFlag'']"
    by (auto simp: parseSoapResponse_v1_def bindE_def split: sum.splits)
  from assms(5) have v: "read_prop soapData ''isPermitValidTill'' = JUndefined"
    by (rule parse_v1_no_validity)
  from run_expired_v1 [OF assms]
  show ?thesis
    using keys v by (auto simp: isPermitExpired_eq)
qed

theorem v1_always_expired_witness:
  "logs_ok ex_world \<and>
   get_prop ex_client ''confirmedByUser'' = Inr JUndefined \<and>
   parseSoapResponse_v1 (ex_env (ex_details ''2099-12-31'') None) ''<reply/>'' = Inr ex_record_v1 \<and>
   read_prop ex_record_v1 ''isPermitValidTill'' = JUndefined \<and>
   (\<exists>r w'. validate_v1 (ex_env (ex_details ''2099-12-31'') None) ex_client ex_world = (Some r, w') \<and>
      status r = 422)"
proof -
  have n: "JUndefined \<noteq> JBool True" by simp
  from v1_always_expired [OF ex_logs_ok ex_client_props(2) n
      ex_soap_reply [of "ex_details ''2099-12-31''" None]
      ex_parse_v1 [of "''2099-12-31''" None]]
  show ?thesis
    using ex_logs_ok ex_client_props(2) ex_parse_v1 by auto
qed

end
